theory Spec2Isabelle
  imports Complex_Main
begin

section \<open>Input values\<close>

text \<open>
  The checkers take a Go \<open>interface{}\<close>. The values that reach them are decoded JSON:
  null, a boolean, a number, a string, a sequence or a mapping. Only the dynamic type is
  ever inspected (the type assertion \<open>input.(string)\<close>), and of a string its bytes: a Go
  string is a byte sequence, here a \<open>char list\<close>.
\<close>

datatype json_value =
    Null
  | Boolean bool
  | Number real
  | String string
  | Sequence "json_value list"
  | Mapping "(string \<times> json_value) list"

text \<open>The type assertion \<open>asString, ok := input.(string)\<close>: \<open>None\<close> is \<open>ok = false\<close>.\<close>

fun asString :: "json_value \<Rightarrow> string option" where
  "asString (String s) = Some s"
| "asString _ = None"

section \<open>Bytes\<close>

text \<open>
  The Go standard library is not part of the repository. The functions of it that the
  checkers call are modelled below after the library's sources (Go 1.22: \<open>time/format.go\<close>,
  \<open>net/netip/netip.go\<close>, \<open>net/url/url.go\<close>, \<open>fmt/print.go\<close>, package \<open>regexp\<close>), as far as the
  checkers exercise them. Two library parsers are not modelled and are parameters of the
  checkers that call them: \<open>mail.ParseAddress\<close> and \<open>regexp.Compile\<close>.
\<close>

definition is_digit :: "char \<Rightarrow> bool" where
  "is_digit c = (48 \<le> (of_char c :: nat) \<and> (of_char c :: nat) \<le> 57)"

definition digit_val :: "char \<Rightarrow> int" where
  "digit_val c = int (of_char c) - 48"

definition is_lower :: "char \<Rightarrow> bool" where
  "is_lower c = (97 \<le> (of_char c :: nat) \<and> (of_char c :: nat) \<le> 122)"

definition is_upper :: "char \<Rightarrow> bool" where
  "is_upper c = (65 \<le> (of_char c :: nat) \<and> (of_char c :: nat) \<le> 90)"

definition ishex :: "char \<Rightarrow> bool" where
  "ishex c =
     (is_digit c \<or> (97 \<le> (of_char c :: nat) \<and> (of_char c :: nat) \<le> 102)
                 \<or> (65 \<le> (of_char c :: nat) \<and> (of_char c :: nat) \<le> 70))"

definition unhex :: "char \<Rightarrow> nat" where
  "unhex c =
     (if is_digit c then of_char c - 48
      else if 97 \<le> (of_char c :: nat) \<and> (of_char c :: nat) \<le> 102 then of_char c - 97 + 10
      else if 65 \<le> (of_char c :: nat) \<and> (of_char c :: nat) \<le> 70 then of_char c - 65 + 10
      else 0)"

text \<open>\<open>strings.Contains(s, string(c))\<close> for a one-byte needle.\<close>

definition contains_byte :: "string \<Rightarrow> char \<Rightarrow> bool" where
  "contains_byte s c = list_ex (\<lambda>x. x = c) s"

text \<open>\<open>strings.Cut(s, string(sep))\<close>: the text before and after the first \<open>sep\<close>.\<close>

definition Cut :: "string \<Rightarrow> char \<Rightarrow> string \<times> string" where
  "Cut s sep = (takeWhile (\<lambda>x. x \<noteq> sep) s, drop 1 (dropWhile (\<lambda>x. x \<noteq> sep) s))"

section \<open>Package regexp: the compiled patterns\<close>

text \<open>
  The five patterns of format_checkers.go are anchored at both ends, so \<open>MatchString\<close>
  asks whether the whole input is in the pattern's language. A pattern is a term of
  \<open>regexp\<close>; matching is by derivatives. A character class is a list of byte ranges,
  negated or not. All literals of the patterns are ASCII, so matching bytes and matching
  runes agree.
\<close>

datatype regexp =
    NoMatch
  | EmptyMatch
  | CharClass bool "(char \<times> char) list"
  | Concat regexp regexp
  | Alternate regexp regexp
  | Star regexp

definition in_range :: "char \<Rightarrow> char \<times> char \<Rightarrow> bool" where
  "in_range c r =
     ((of_char (fst r) :: nat) \<le> of_char c \<and> (of_char c :: nat) \<le> of_char (snd r))"

definition class_matches :: "bool \<Rightarrow> (char \<times> char) list \<Rightarrow> char \<Rightarrow> bool" where
  "class_matches negated ranges c = (list_ex (in_range c) ranges \<noteq> negated)"

fun nullable :: "regexp \<Rightarrow> bool" where
  "nullable NoMatch = False"
| "nullable EmptyMatch = True"
| "nullable (CharClass n rs) = False"
| "nullable (Concat r s) = (nullable r \<and> nullable s)"
| "nullable (Alternate r s) = (nullable r \<or> nullable s)"
| "nullable (Star r) = True"

fun rx_deriv :: "char \<Rightarrow> regexp \<Rightarrow> regexp" where
  "rx_deriv c NoMatch = NoMatch"
| "rx_deriv c EmptyMatch = NoMatch"
| "rx_deriv c (CharClass n rs) = (if class_matches n rs c then EmptyMatch else NoMatch)"
| "rx_deriv c (Concat r s) =
     (if nullable r then Alternate (Concat (rx_deriv c r) s) (rx_deriv c s)
      else Concat (rx_deriv c r) s)"
| "rx_deriv c (Alternate r s) = Alternate (rx_deriv c r) (rx_deriv c s)"
| "rx_deriv c (Star r) = Concat (rx_deriv c r) (Star r)"

fun MatchString :: "regexp \<Rightarrow> string \<Rightarrow> bool" where
  "MatchString r [] = nullable r"
| "MatchString r (c # cs) = MatchString (rx_deriv c r) cs"

definition Lit :: "char \<Rightarrow> regexp" where
  "Lit c = CharClass False [(c, c)]"

definition Quest :: "regexp \<Rightarrow> regexp" where
  "Quest r = Alternate r EmptyMatch"

fun Repeat :: "nat \<Rightarrow> regexp \<Rightarrow> regexp" where
  "Repeat 0 r = EmptyMatch"
| "Repeat (Suc n) r = Concat r (Repeat n r)"

fun RepeatUpTo :: "nat \<Rightarrow> regexp \<Rightarrow> regexp" where
  "RepeatUpTo 0 r = EmptyMatch"
| "RepeatUpTo (Suc n) r = Quest (Concat r (RepeatUpTo n r))"

text \<open>\<^verbatim>\<open>[a-zA-Z0-9]\<close> and \<^verbatim>\<open>[a-zA-Z0-9\-]\<close>, and one hostname label.\<close>

definition rx_alnum :: regexp where
  "rx_alnum = CharClass False
     [(CHR ''a'', CHR ''z''), (CHR ''A'', CHR ''Z''), (CHR ''0'', CHR ''9'')]"

definition rx_alnum_dash :: regexp where
  "rx_alnum_dash = CharClass False
     [(CHR ''a'', CHR ''z''), (CHR ''A'', CHR ''Z''), (CHR ''0'', CHR ''9''),
      (CHR ''-'', CHR ''-'')]"

definition rx_label :: regexp where
  "rx_label =
     Alternate rx_alnum (Concat rx_alnum (Concat (RepeatUpTo 61 rx_alnum_dash) rx_alnum))"

definition rxHostname :: regexp where
  "rxHostname = Concat rx_label (Star (Concat (Lit (CHR ''.'')) rx_label))"

text \<open>\<^verbatim>\<open>^([^{]*({[^}]*})?)*$\<close>\<close>

definition rxURITemplate :: regexp where
  "rxURITemplate =
     Star (Concat (Star (CharClass True [(CHR ''{'', CHR ''{'')]))
                  (Quest (Concat (Lit (CHR ''{''))
                            (Concat (Star (CharClass True [(CHR ''}'', CHR ''}'')]))
                                    (Lit (CHR ''}''))))))"

text \<open>\<^verbatim>\<open>^[a-f0-9]{8}-[a-f0-9]{4}-[a-f0-9]{4}-[a-f0-9]{4}-[a-f0-9]{12}$\<close>\<close>

definition rx_hex_lower :: regexp where
  "rx_hex_lower = CharClass False [(CHR ''a'', CHR ''f''), (CHR ''0'', CHR ''9'')]"

definition rxUUID :: regexp where
  "rxUUID =
     Concat (Repeat 8 rx_hex_lower) (Concat (Lit (CHR ''-''))
    (Concat (Repeat 4 rx_hex_lower) (Concat (Lit (CHR ''-''))
    (Concat (Repeat 4 rx_hex_lower) (Concat (Lit (CHR ''-''))
    (Concat (Repeat 4 rx_hex_lower) (Concat (Lit (CHR ''-''))
            (Repeat 12 rx_hex_lower))))))))"

text \<open>\<^verbatim>\<open>^(?:/(?:[^~/]|~0|~1)*)*$\<close>\<close>

definition rx_pointer_segments :: regexp where
  "rx_pointer_segments =
     Star (Concat (Lit (CHR ''/''))
       (Star (Alternate (CharClass True [(CHR ''~'', CHR ''~''), (CHR ''/'', CHR ''/'')])
             (Alternate (Concat (Lit (CHR ''~'')) (Lit (CHR ''0'')))
                        (Concat (Lit (CHR ''~'')) (Lit (CHR ''1'')))))))"

definition rxJSONPointer :: regexp where
  "rxJSONPointer = rx_pointer_segments"

text \<open>\<^verbatim>\<open>^(?:0|[1-9][0-9]*)(?:#|(?:/(?:[^~/]|~0|~1)*)*)$\<close>\<close>

definition rxRelJSONPointer :: regexp where
  "rxRelJSONPointer =
     Concat (Alternate (Lit (CHR ''0''))
               (Concat (CharClass False [(CHR ''1'', CHR ''9'')])
                       (Star (CharClass False [(CHR ''0'', CHR ''9'')]))))
            (Alternate (Lit (CHR ''#'')) rx_pointer_segments)"

section \<open>Package time: Parse\<close>

text \<open>
  \<open>time.Parse(layout, value)\<close> cuts the layout into chunks: a literal prefix and the
  reference-time element (\<open>std\<close>) that follows it. It then walks the chunks, skipping each
  prefix in the value and parsing each element, and at the end rejects left-over text and
  a day the month does not have. The checkers only test \<open>err == nil\<close>, so every error
  is \<open>None\<close>. The layouts used by the checkers contain no space, for which \<open>skip\<close>
  compares byte by byte, and end in an element, not in literal text.
\<close>

text \<open>\<open>getnum(s, fixed)\<close>: one or two digits; exactly two when \<open>fixed\<close>.\<close>

fun getnum :: "string \<Rightarrow> bool \<Rightarrow> (int \<times> string) option" where
  "getnum [] fixed = None"
| "getnum [a] fixed =
     (if \<not> is_digit a then None
      else if fixed then None
      else Some (digit_val a, []))"
| "getnum (a # b # rest) fixed =
     (if \<not> is_digit a then None
      else if \<not> is_digit b then (if fixed then None else Some (digit_val a, b # rest))
      else Some (digit_val a * 10 + digit_val b, rest))"

text \<open>\<open>leadingInt\<close> reads a run of digits into a \<open>uint64\<close> and fails on overflow.\<close>

fun leadingInt :: "int \<Rightarrow> string \<Rightarrow> (int \<times> string) option" where
  "leadingInt x [] = Some (x, [])"
| "leadingInt x (c # cs) =
     (if \<not> is_digit c then Some (x, c # cs)
      else if x > 2 ^ 63 div 10 then None
      else if x * 10 + digit_val c > 2 ^ 63 then None
      else leadingInt (x * 10 + digit_val c) cs)"

definition atoi :: "string \<Rightarrow> int option" where
  "atoi s =
     (let neg = (s \<noteq> [] \<and> hd s = CHR ''-'');
          s' = (if s \<noteq> [] \<and> (hd s = CHR ''-'' \<or> hd s = CHR ''+'') then tl s else s)
      in case leadingInt 0 s' of
           None \<Rightarrow> None
         | Some (q, rem) \<Rightarrow>
             if rem \<noteq> [] then None else Some (if neg then - q else q))"

fun skip :: "string \<Rightarrow> string \<Rightarrow> string option" where
  "skip v [] = Some v"
| "skip [] (p # ps) = None"
| "skip (c # cs) (p # ps) = (if c \<noteq> p then None else skip cs ps)"

datatype std =
    stdLongYear
  | stdZeroMonth
  | stdZeroDay
  | stdHour
  | stdZeroMinute
  | stdZeroSecond
  | stdFracSecond9
  | stdISO8601ColonTZ

text \<open>The local variables of \<open>parse\<close> that the elements above assign.\<close>

record parsed =
  p_year :: int
  p_month :: int
  p_day :: int
  p_hour :: int
  p_min :: int
  p_sec :: int
  p_nsec :: int
  p_zoneOffset :: int

definition commaOrPeriod :: "char \<Rightarrow> bool" where
  "commaOrPeriod c = (c = CHR ''.'' \<or> c = CHR '','')"

text \<open>
  \<open>parseNanoseconds(value, nbytes)\<close>. Both callers pass a value of at least two bytes, a
  separator and a digit, so \<open>value[0]\<close> is in range.
\<close>

definition parseNanoseconds :: "string \<Rightarrow> nat \<Rightarrow> int option" where
  "parseNanoseconds v nbytes =
     (if \<not> commaOrPeriod (hd v) then None
      else let v' = (if nbytes > 10 then take 10 v else v);
               n' = (if nbytes > 10 then 10 else nbytes)
           in case atoi (take (n' - 1) (drop 1 v')) of
                None \<Rightarrow> None
              | Some ns \<Rightarrow> if ns < 0 then None else Some (ns * 10 ^ (10 - n')))"

definition isLeap :: "int \<Rightarrow> bool" where
  "isLeap y = (y mod 4 = 0 \<and> (y mod 100 \<noteq> 0 \<or> y mod 400 = 0))"

text \<open>\<open>daysIn(m, year)\<close>, with the table \<open>daysBefore\<close> read out.\<close>

definition daysIn :: "int \<Rightarrow> int \<Rightarrow> int" where
  "daysIn m y =
     (if m = 2 \<and> isLeap y then 29
      else if m = 2 then 28
      else if m = 4 \<or> m = 6 \<or> m = 9 \<or> m = 11 then 30
      else 31)"

text \<open>The element \<^verbatim>\<open>Z07:00\<close>: a \<open>Z\<close>, or a sign, two digits, a colon and two digits.\<close>

definition parse_tz :: "string \<Rightarrow> parsed \<Rightarrow> (string \<times> parsed) option" where
  "parse_tz v t =
     (if 1 \<le> length v \<and> v ! 0 = CHR ''Z'' then Some (drop 1 v, t)
      else if length v < 6 then None
      else if v ! 3 \<noteq> CHR '':'' then None
      else
        (case getnum (take 2 (drop 1 v)) True of
           None \<Rightarrow> None
         | Some (hr, _) \<Rightarrow>
           (case getnum (take 2 (drop 4 v)) True of
              None \<Rightarrow> None
            | Some (mm, _) \<Rightarrow>
              (case getnum ''00'' True of
                 None \<Rightarrow> None
               | Some (ss, _) \<Rightarrow>
                   if hr > 24 \<or> mm > 60 \<or> ss > 60 then None
                   else if v ! 0 = CHR ''+'' then
                     Some (drop 6 v, t\<lparr>p_zoneOffset := (hr * 60 + mm) * 60 + ss\<rparr>)
                   else if v ! 0 = CHR ''-'' then
                     Some (drop 6 v, t\<lparr>p_zoneOffset := - ((hr * 60 + mm) * 60 + ss)\<rparr>)
                   else None))))"

text \<open>
  One case of the \<open>switch std & stdMask\<close> of \<open>parse\<close>. The second argument is the
  element of the chunk that follows, which the seconds case looks at.
\<close>

fun parse_std :: "std \<Rightarrow> std option \<Rightarrow> string \<Rightarrow> parsed \<Rightarrow> (string \<times> parsed) option" where
  "parse_std stdLongYear nxt v t =
     (if length v < 4 \<or> \<not> is_digit (v ! 0) then None
      else case atoi (take 4 v) of
             None \<Rightarrow> None
           | Some y \<Rightarrow> Some (drop 4 v, t\<lparr>p_year := y\<rparr>))"
| "parse_std stdZeroMonth nxt v t =
     (case getnum v True of
        None \<Rightarrow> None
      | Some (m, v') \<Rightarrow> if m \<le> 0 \<or> 12 < m then None else Some (v', t\<lparr>p_month := m\<rparr>))"
| "parse_std stdZeroDay nxt v t =
     (case getnum v True of
        None \<Rightarrow> None
      | Some (d, v') \<Rightarrow> Some (v', t\<lparr>p_day := d\<rparr>))"
| "parse_std stdHour nxt v t =
     (case getnum v False of
        None \<Rightarrow> None
      | Some (h, v') \<Rightarrow> if h < 0 \<or> 24 \<le> h then None else Some (v', t\<lparr>p_hour := h\<rparr>))"
| "parse_std stdZeroMinute nxt v t =
     (case getnum v True of
        None \<Rightarrow> None
      | Some (m, v') \<Rightarrow> if m < 0 \<or> 60 \<le> m then None else Some (v', t\<lparr>p_min := m\<rparr>))"
| "parse_std stdZeroSecond nxt v t =
     (case getnum v True of
        None \<Rightarrow> None
      | Some (s, v') \<Rightarrow>
          if s < 0 \<or> 60 \<le> s then None
          else if 2 \<le> length v' \<and> commaOrPeriod (v' ! 0) \<and> is_digit (v' ! 1) then
            (if nxt = Some stdFracSecond9 then Some (v', t\<lparr>p_sec := s\<rparr>)
             else let n = 2 + length (takeWhile is_digit (drop 2 v'))
                  in case parseNanoseconds v' n of
                       None \<Rightarrow> None
                     | Some ns \<Rightarrow> Some (drop n v', t\<lparr>p_sec := s, p_nsec := ns\<rparr>))
          else Some (v', t\<lparr>p_sec := s\<rparr>))"
| "parse_std stdFracSecond9 nxt v t =
     (if length v < 2 \<or> \<not> commaOrPeriod (v ! 0) \<or> \<not> is_digit (v ! 1) then Some (v, t)
      else let i = length (takeWhile is_digit (drop 1 v))
           in case parseNanoseconds v (1 + i) of
                None \<Rightarrow> None
              | Some ns \<Rightarrow> Some (drop (1 + i) v, t\<lparr>p_nsec := ns\<rparr>))"
| "parse_std stdISO8601ColonTZ nxt v t = parse_tz v t"

type_synonym layout = "(string \<times> std) list"

fun parse_chunks :: "layout \<Rightarrow> string \<Rightarrow> parsed \<Rightarrow> parsed option" where
  "parse_chunks [] v t = (if v \<noteq> [] then None else Some t)"
| "parse_chunks ((prefix, s) # rest) v t =
     (case skip v prefix of
        None \<Rightarrow> None
      | Some v1 \<Rightarrow>
          (case parse_std s (case rest of [] \<Rightarrow> None | c # _ \<Rightarrow> Some (snd c)) v1 t of
             None \<Rightarrow> None
           | Some (v2, t') \<Rightarrow> parse_chunks rest v2 t'))"

text \<open>
  \<open>time.Parse\<close>: the walk over the chunks, then the defaults for a month and a day the
  layout does not have, then the check of the day of the month.
\<close>

definition time_Parse :: "layout \<Rightarrow> string \<Rightarrow> parsed option" where
  "time_Parse l v =
     (case parse_chunks l v
             \<lparr>p_year = 0, p_month = -1, p_day = -1, p_hour = 0, p_min = 0, p_sec = 0,
              p_nsec = 0, p_zoneOffset = -1\<rparr> of
        None \<Rightarrow> None
      | Some t \<Rightarrow>
          (let month = (if p_month t < 0 then 1 else p_month t);
               day = (if p_day t < 0 then 1 else p_day t)
           in if day < 1 \<or> day > daysIn month (p_year t) then None
              else Some (t\<lparr>p_month := month, p_day := day\<rparr>)))"

text \<open>
  The layouts of the checkers, cut as \<open>nextStdChunk\<close> cuts them:
  \<^verbatim>\<open>15:04:05\<close>, \<^verbatim>\<open>15:04:05Z07:00\<close>, \<^verbatim>\<open>2006-01-02\<close>, \<open>time.RFC3339\<close>
  (\<^verbatim>\<open>2006-01-02T15:04:05Z07:00\<close>) and \<open>time.RFC3339Nano\<close>
  (\<^verbatim>\<open>2006-01-02T15:04:05.999999999Z07:00\<close>).
\<close>

definition layout_15_04_05 :: layout where
  "layout_15_04_05 = [('''', stdHour), ('':'', stdZeroMinute), ('':'', stdZeroSecond)]"

definition layout_15_04_05Z07_00 :: layout where
  "layout_15_04_05Z07_00 =
     [('''', stdHour), ('':'', stdZeroMinute), ('':'', stdZeroSecond),
      ('''', stdISO8601ColonTZ)]"

definition layout_2006_01_02 :: layout where
  "layout_2006_01_02 = [('''', stdLongYear), (''-'', stdZeroMonth), (''-'', stdZeroDay)]"

definition RFC3339 :: layout where
  "RFC3339 =
     [('''', stdLongYear), (''-'', stdZeroMonth), (''-'', stdZeroDay),
      (''T'', stdHour), ('':'', stdZeroMinute), ('':'', stdZeroSecond),
      ('''', stdISO8601ColonTZ)]"

definition RFC3339Nano :: layout where
  "RFC3339Nano =
     [('''', stdLongYear), (''-'', stdZeroMonth), (''-'', stdZeroDay),
      (''T'', stdHour), ('':'', stdZeroMinute), ('':'', stdZeroSecond),
      ('''', stdFracSecond9), ('''', stdISO8601ColonTZ)]"

section \<open>Package net: ParseIP\<close>

text \<open>
  \<open>net.ParseIP(s)\<close> is \<open>netip.ParseAddr(s)\<close> with its errors and every address that
  carries a zone turned into \<open>nil\<close>, here \<open>None\<close>. An address is its bytes.
\<close>

text \<open>
  \<open>parseIPv4Fields\<close>: the loop over the bytes, with the byte before the current one
  (\<open>None\<close> at index 0), the value and the number of digits of the current field, and the
  fields read so far (\<open>pos\<close> is their number).
\<close>

fun parseIPv4Fields_loop ::
  "string \<Rightarrow> char option \<Rightarrow> nat \<Rightarrow> nat \<Rightarrow> nat list \<Rightarrow> nat list option" where
  "parseIPv4Fields_loop [] prev val digLen flds =
     (if length flds < 3 then None else Some (flds @ [val]))"
| "parseIPv4Fields_loop (c # cs) prev val digLen flds =
     (if is_digit c then
        (if digLen = 1 \<and> val = 0 then None
         else if val * 10 + nat (digit_val c) > 255 then None
         else parseIPv4Fields_loop cs (Some c) (val * 10 + nat (digit_val c)) (digLen + 1) flds)
      else if c = CHR ''.'' then
        (if prev = None \<or> cs = [] \<or> prev = Some (CHR ''.'') then None
         else if length flds = 3 then None
         else parseIPv4Fields_loop cs (Some c) 0 0 (flds @ [val]))
      else None)"

definition parseIPv4Fields :: "string \<Rightarrow> nat list option" where
  "parseIPv4Fields s = parseIPv4Fields_loop s None 0 0 []"

definition hex_value :: "string \<Rightarrow> nat" where
  "hex_value s = foldl (\<lambda>acc c. acc * 16 + unhex c) 0 s"

text \<open>
  The loop of \<open>parseIPv6\<close> over the colon-separated groups: the rest of the text, the
  index \<open>i\<close> into the sixteen bytes, the position of the ellipsis (\<open>None\<close> for -1) and the
  bytes written so far. It returns what the loop leaves when it ends or breaks. A group
  of five or more hex digits fails at the fifth, before the accumulator can pass 16 bits.
\<close>

function parseIPv6_loop ::
  "string \<Rightarrow> nat \<Rightarrow> nat option \<Rightarrow> nat list \<Rightarrow> (string \<times> nat \<times> nat option \<times> nat list) option"
  where
  "parseIPv6_loop s i ellipsis ip =
     (if \<not> i < 16 then Some (s, i, ellipsis, ip)
      else
        let off = length (takeWhile ishex s);
            acc = hex_value (take off s)
        in if off > 4 then None
           else if off = 0 then None
           else if off < length s \<and> s ! off = CHR ''.'' then
             (if ellipsis = None \<and> i \<noteq> 12 then None
              else if i + 4 > 16 then None
              else case parseIPv4Fields s of
                     None \<Rightarrow> None
                   | Some flds \<Rightarrow> Some ([], i + 4, ellipsis, ip @ flds))
           else
             let ip' = ip @ [acc div 256, acc mod 256];
                 s1 = drop off s
             in if s1 = [] then Some (s1, i + 2, ellipsis, ip')
                else if hd s1 \<noteq> CHR '':'' then None
                else if length s1 = 1 then None
                else if hd (tl s1) = CHR '':'' then
                  (if ellipsis \<noteq> None then None
                   else if tl (tl s1) = [] then Some ([], i + 2, Some (i + 2), ip')
                   else parseIPv6_loop (tl (tl s1)) (i + 2) (Some (i + 2)) ip')
                else parseIPv6_loop (tl s1) (i + 2) ellipsis ip')"
  by pat_completeness auto
termination
  by (relation "measure (\<lambda>(s, i, e, ip). 16 - i)") auto

text \<open>
  \<open>parseIPv6\<close>: the zone is split off, a leading ellipsis is taken, the loop runs, and
  the ellipsis is expanded to the missing zero bytes. The result is the sixteen bytes and
  the zone.
\<close>

definition parseIPv6 :: "string \<Rightarrow> (nat list \<times> string) option" where
  "parseIPv6 inp =
     (let s = takeWhile (\<lambda>c. c \<noteq> CHR ''%'') inp;
          has_zone = contains_byte inp (CHR ''%'');
          zone = drop 1 (dropWhile (\<lambda>c. c \<noteq> CHR ''%'') inp)
      in if has_zone \<and> zone = [] then None
         else
           let lead = (2 \<le> length s \<and> s ! 0 = CHR '':'' \<and> s ! 1 = CHR '':'');
               s0 = (if lead then drop 2 s else s)
           in if lead \<and> s0 = [] then Some (replicate 16 0, zone)
              else
                (case parseIPv6_loop s0 0 (if lead then Some 0 else None) [] of
                   None \<Rightarrow> None
                 | Some (rest, i, ellipsis, ip) \<Rightarrow>
                     if rest \<noteq> [] then None
                     else if i < 16 then
                       (case ellipsis of
                          None \<Rightarrow> None
                        | Some e \<Rightarrow> Some (take e ip @ replicate (16 - i) 0 @ drop e ip, zone))
                     else if ellipsis \<noteq> None then None
                     else Some (ip, zone)))"

text \<open>\<open>parseIPv4\<close>, and the four bytes as the sixteen of \<open>As16\<close>.\<close>

definition parseIPv4 :: "string \<Rightarrow> (nat list \<times> string) option" where
  "parseIPv4 s =
     (case parseIPv4Fields s of
        None \<Rightarrow> None
      | Some flds \<Rightarrow> Some (replicate 10 0 @ [255, 255] @ flds, []))"

text \<open>\<open>netip.ParseAddr\<close>: the first of \<open>.\<close>, \<open>:\<close> and \<open>%\<close> in the text decides.\<close>

fun ParseAddr_scan :: "string \<Rightarrow> string \<Rightarrow> (nat list \<times> string) option" where
  "ParseAddr_scan s [] = None"
| "ParseAddr_scan s (c # cs) =
     (if c = CHR ''.'' then parseIPv4 s
      else if c = CHR '':'' then parseIPv6 s
      else if c = CHR ''%'' then None
      else ParseAddr_scan s cs)"

definition ParseAddr :: "string \<Rightarrow> (nat list \<times> string) option" where
  "ParseAddr s = ParseAddr_scan s s"

definition ParseIP :: "string \<Rightarrow> nat list option" where
  "ParseIP s =
     (case ParseAddr s of
        None \<Rightarrow> None
      | Some (ip, zone) \<Rightarrow> if zone \<noteq> [] then None else Some ip)"

section \<open>Package net/url: Parse\<close>

text \<open>
  The fields of \<open>url.URL\<close> that \<open>Parse\<close> fills from the text. \<open>RawPath\<close>,
  \<open>RawFragment\<close> and \<open>OmitHost\<close> are hints for printing a URL again and are left out.
\<close>

record URL =
  Scheme :: string
  Opaque :: string
  User :: "(string \<times> string option) option"
  Host :: string
  Path :: string
  ForceQuery :: bool
  RawQuery :: string
  Fragment :: string

datatype encoding =
    encodePath
  | encodePathSegment
  | encodeHost
  | encodeZone
  | encodeUserPassword
  | encodeQueryComponent
  | encodeFragment

definition stringContainsCTLByte :: "string \<Rightarrow> bool" where
  "stringContainsCTLByte s = list_ex (\<lambda>b. (of_char b :: nat) < 32 \<or> (of_char b :: nat) = 127) s"

text \<open>\<open>strings.ToLower\<close> on a scheme, which is ASCII.\<close>

definition toLower :: "string \<Rightarrow> string" where
  "toLower s = map (\<lambda>c. if is_upper c then char_of (of_char c + (32 :: nat)) else c) s"

text \<open>\<open>getScheme\<close>: the loop from index \<open>i\<close>, over the text that is left.\<close>

fun getScheme_from :: "nat \<Rightarrow> string \<Rightarrow> string \<Rightarrow> (string \<times> string) option" where
  "getScheme_from i rawURL [] = Some ([], rawURL)"
| "getScheme_from i rawURL (c # cs) =
     (if is_lower c \<or> is_upper c then getScheme_from (i + 1) rawURL cs
      else if is_digit c \<or> c = CHR ''+'' \<or> c = CHR ''-'' \<or> c = CHR ''.'' then
        (if i = 0 then Some ([], rawURL) else getScheme_from (i + 1) rawURL cs)
      else if c = CHR '':'' then
        (if i = 0 then None else Some (take i rawURL, cs))
      else Some ([], rawURL))"

definition getScheme :: "string \<Rightarrow> (string \<times> string) option" where
  "getScheme rawURL = getScheme_from 0 rawURL rawURL"

definition shouldEscape :: "char \<Rightarrow> encoding \<Rightarrow> bool" where
  "shouldEscape c mode =
     (if is_lower c \<or> is_upper c \<or> is_digit c then False
      else if (mode = encodeHost \<or> mode = encodeZone) \<and> c \<in> set ''!$&'()*+,;=:[]<>\"'' then False
      else if c \<in> set ''-_.~'' then False
      else if c \<in> set ''$&+,/:;=?@'' \<and> mode = encodePath then c = CHR ''?''
      else if c \<in> set ''$&+,/:;=?@'' \<and> mode = encodePathSegment then
        c = CHR ''/'' \<or> c = CHR '';'' \<or> c = CHR '','' \<or> c = CHR ''?''
      else if c \<in> set ''$&+,/:;=?@'' \<and> mode = encodeUserPassword then
        c = CHR ''@'' \<or> c = CHR ''/'' \<or> c = CHR ''?'' \<or> c = CHR '':''
      else if c \<in> set ''$&+,/:;=?@'' \<and> mode = encodeQueryComponent then True
      else if c \<in> set ''$&+,/:;=?@'' \<and> mode = encodeFragment then False
      else if mode = encodeFragment \<and> c \<in> set ''!()*'' then False
      else True)"

text \<open>
  \<open>unescape(s, mode)\<close>. The library checks the whole text first and decodes it after;
  the result is the same in one pass: an error anywhere is an error, otherwise the
  decoded text.
\<close>

fun unescape :: "string \<Rightarrow> encoding \<Rightarrow> string option" where
  "unescape [] mode = Some []"
| "unescape (c # cs) mode =
     (if c = CHR ''%'' then
        (case cs of
           h1 # h2 # rest \<Rightarrow>
             if \<not> ishex h1 \<or> \<not> ishex h2 then None
             else if mode = encodeHost \<and> unhex h1 < 8 \<and> [h1, h2] \<noteq> ''25'' then None
             else if mode = encodeZone \<and> [h1, h2] \<noteq> ''25''
                     \<and> char_of (unhex h1 * 16 + unhex h2) \<noteq> CHR '' ''
                     \<and> shouldEscape (char_of (unhex h1 * 16 + unhex h2)) encodeHost then None
             else map_option ((#) (char_of (unhex h1 * 16 + unhex h2))) (unescape rest mode)
         | _ \<Rightarrow> None)
      else if c = CHR ''+'' then
        map_option ((#) (if mode = encodeQueryComponent then CHR '' '' else CHR ''+''))
          (unescape cs mode)
      else if (mode = encodeHost \<or> mode = encodeZone) \<and> (of_char c :: nat) < 128
              \<and> shouldEscape c mode then None
      else map_option ((#) c) (unescape cs mode))"

definition validOptionalPort :: "string \<Rightarrow> bool" where
  "validOptionalPort port =
     (case port of
        [] \<Rightarrow> True
      | c # cs \<Rightarrow> if c \<noteq> CHR '':'' then False else list_all is_digit cs)"

definition validUserinfo :: "string \<Rightarrow> bool" where
  "validUserinfo s =
     list_all (\<lambda>r. is_upper r \<or> is_lower r \<or> is_digit r \<or> r \<in> set ''-._:~!$&'()*+,;=%@'') s"

text \<open>\<open>strings.LastIndex(s, string(c))\<close> and \<open>strings.Index(s, sub)\<close>; \<open>None\<close> is -1.\<close>

definition LastIndex :: "string \<Rightarrow> char \<Rightarrow> nat option" where
  "LastIndex s c =
     (if contains_byte s c then Some (length s - 1 - length (takeWhile (\<lambda>x. x \<noteq> c) (rev s)))
      else None)"

fun Index_from :: "nat \<Rightarrow> string \<Rightarrow> string \<Rightarrow> nat option" where
  "Index_from i [] sub = (if sub = [] then Some i else None)"
| "Index_from i (c # cs) sub =
     (if take (length sub) (c # cs) = sub then Some i else Index_from (i + 1) cs sub)"

definition Index :: "string \<Rightarrow> string \<Rightarrow> nat option" where
  "Index s sub = Index_from 0 s sub"

definition parseHost :: "string \<Rightarrow> string option" where
  "parseHost host =
     (if take 1 host = ''['' then
        (case LastIndex host (CHR '']'') of
           None \<Rightarrow> None
         | Some i \<Rightarrow>
             if \<not> validOptionalPort (drop (i + 1) host) then None
             else
               (case Index (take i host) ''%25'' of
                  Some zone \<Rightarrow>
                    (case unescape (take zone host) encodeHost of
                       None \<Rightarrow> None
                     | Some host1 \<Rightarrow>
                       (case unescape (take (i - zone) (drop zone host)) encodeZone of
                          None \<Rightarrow> None
                        | Some host2 \<Rightarrow>
                          (case unescape (drop i host) encodeHost of
                             None \<Rightarrow> None
                           | Some host3 \<Rightarrow> Some (host1 @ host2 @ host3))))
                | None \<Rightarrow> unescape host encodeHost))
      else
        (case LastIndex host (CHR '':'') of
           Some i \<Rightarrow>
             if \<not> validOptionalPort (drop i host) then None else unescape host encodeHost
         | None \<Rightarrow> unescape host encodeHost))"

definition parseAuthority :: "string \<Rightarrow> ((string \<times> string option) option \<times> string) option" where
  "parseAuthority authority =
     (case LastIndex authority (CHR ''@'') of
        None \<Rightarrow>
          (case parseHost authority of None \<Rightarrow> None | Some host \<Rightarrow> Some (None, host))
      | Some i \<Rightarrow>
          (case parseHost (drop (i + 1) authority) of
             None \<Rightarrow> None
           | Some host \<Rightarrow>
               let userinfo = take i authority
               in if \<not> validUserinfo userinfo then None
                  else if \<not> contains_byte userinfo (CHR '':'') then
                    (case unescape userinfo encodeUserPassword of
                       None \<Rightarrow> None
                     | Some username \<Rightarrow> Some (Some (username, None), host))
                  else
                    (case unescape (fst (Cut userinfo (CHR '':''))) encodeUserPassword of
                       None \<Rightarrow> None
                     | Some username \<Rightarrow>
                       (case unescape (snd (Cut userinfo (CHR '':''))) encodeUserPassword of
                          None \<Rightarrow> None
                        | Some password \<Rightarrow> Some (Some (username, Some password), host)))))"

text \<open>
  \<open>parse(rawURL, viaRequest)\<close> with \<open>viaRequest = false\<close>, as \<open>Parse\<close> calls it: the
  text without its fragment.
\<close>

definition parse :: "string \<Rightarrow> URL option" where
  "parse rawURL =
     (let url0 = \<lparr>Scheme = [], Opaque = [], User = None, Host = [], Path = [],
                  ForceQuery = False, RawQuery = [], Fragment = []\<rparr>
      in if stringContainsCTLByte rawURL then None
         else if rawURL = ''*'' then Some (url0\<lparr>Path := ''*''\<rparr>)
         else
           (case getScheme rawURL of
              None \<Rightarrow> None
            | Some (scheme, rest0) \<Rightarrow>
                let url1 = url0\<lparr>Scheme := toLower scheme\<rparr>;
                    force = (rest0 \<noteq> [] \<and> last rest0 = CHR ''?''
                             \<and> length (filter (\<lambda>c. c = CHR ''?'') rest0) = 1);
                    rest = (if force then butlast rest0 else fst (Cut rest0 (CHR ''?'')));
                    url2 = (if force then url1\<lparr>ForceQuery := True\<rparr>
                            else url1\<lparr>RawQuery := snd (Cut rest0 (CHR ''?''))\<rparr>)
                in if take 1 rest \<noteq> ''/'' \<and> Scheme url2 \<noteq> [] then Some (url2\<lparr>Opaque := rest\<rparr>)
                   else if take 1 rest \<noteq> ''/''
                           \<and> contains_byte (fst (Cut rest (CHR ''/''))) (CHR '':'') then None
                   else if (Scheme url2 \<noteq> [] \<or> take 3 rest \<noteq> ''///'') \<and> take 2 rest = ''//'' then
                     (let authority0 = drop 2 rest;
                          authority = takeWhile (\<lambda>c. c \<noteq> CHR ''/'') authority0;
                          rest' = dropWhile (\<lambda>c. c \<noteq> CHR ''/'') authority0
                      in case parseAuthority authority of
                           None \<Rightarrow> None
                         | Some (user, host) \<Rightarrow>
                             (case unescape rest' encodePath of
                                None \<Rightarrow> None
                              | Some path \<Rightarrow> Some (url2\<lparr>User := user, Host := host, Path := path\<rparr>)))
                   else
                     (case unescape rest encodePath of
                        None \<Rightarrow> None
                      | Some path \<Rightarrow> Some (url2\<lparr>Path := path\<rparr>))))"

text \<open>\<open>url.Parse\<close>: the fragment is Cut off, the rest parsed, the fragment unescaped.\<close>

definition url_Parse :: "string \<Rightarrow> URL option" where
  "url_Parse rawURL =
     (let u = fst (Cut rawURL (CHR ''#''));
          frag = snd (Cut rawURL (CHR ''#''))
      in case parse u of
           None \<Rightarrow> None
         | Some url \<Rightarrow>
             if frag = [] then Some url
             else (case unescape frag encodeFragment of
                     None \<Rightarrow> None
                   | Some f \<Rightarrow> Some (url\<lparr>Fragment := f\<rparr>)))"

section \<open>The format registry (format_checkers.go)\<close>

text \<open>
  \<open>FormatChecker\<close> is an interface with the single method \<open>IsFormat(input) bool\<close>: a value
  of it is the predicate itself. Checkers are taken to be pure, as all built-in ones are.
\<close>

type_synonym FormatChecker = "json_value \<Rightarrow> bool"

text \<open>
  Modelled from the spec: the interface \<open>FormatCheckerWithError\<close> and the function
  \<open>convertToNewChecker\<close> are used by format_checkers.go and declared in a file that is not
  part of the sources at hand. The specification describes the registry as a mapping from
  a name to the checker that was added, to which a query "delegates and returns its
  verdict unmodified": the converted checker answers \<open>IsFormat\<close> as the checker it wraps.
\<close>

datatype FormatCheckerWithError = NewChecker FormatChecker

fun FormatCheckerWithError_IsFormat :: "FormatCheckerWithError \<Rightarrow> json_value \<Rightarrow> bool" where
  "FormatCheckerWithError_IsFormat (NewChecker f) input = f input"

definition convertToNewChecker :: "FormatChecker \<Rightarrow> FormatCheckerWithError" where
  "convertToNewChecker f = NewChecker f"

text \<open>
  The chain holds one Go map. The model is of an initialised chain (a non-nil map), as the
  package's own \<open>FormatCheckers\<close> is. The methods have a pointer receiver, so each one is
  a function of the chain that returns the chain it leaves behind; \<open>Add\<close> and \<open>Remove\<close>
  return the receiver itself. The package-wide \<open>sync.RWMutex\<close> is taken and released
  inside every method and has no part in a sequential run.
\<close>

record FormatCheckerChain =
  formatters :: "string \<rightharpoonup> FormatCheckerWithError"

definition FormatCheckerChain_Add ::
  "string \<Rightarrow> FormatChecker \<Rightarrow> FormatCheckerChain \<Rightarrow> FormatCheckerChain" where
  "FormatCheckerChain_Add name f c =
     (let fmtCheckerWithErr = convertToNewChecker f
      in c\<lparr>formatters := (formatters c)(name \<mapsto> fmtCheckerWithErr)\<rparr>)"

definition FormatCheckerChain_Remove ::
  "string \<Rightarrow> FormatCheckerChain \<Rightarrow> FormatCheckerChain" where
  "FormatCheckerChain_Remove name c = c\<lparr>formatters := (formatters c)(name := None)\<rparr>"

definition FormatCheckerChain_Has ::
  "string \<Rightarrow> FormatCheckerChain \<Rightarrow> bool \<times> FormatCheckerChain" where
  "FormatCheckerChain_Has name c =
     (case formatters c name of None \<Rightarrow> (False, c) | Some _ \<Rightarrow> (True, c))"

definition FormatCheckerChain_IsFormat ::
  "string \<Rightarrow> json_value \<Rightarrow> FormatCheckerChain \<Rightarrow> bool \<times> FormatCheckerChain" where
  "FormatCheckerChain_IsFormat name input c =
     (case formatters c name of
        None \<Rightarrow> (True, c)
      | Some f \<Rightarrow> (FormatCheckerWithError_IsFormat f input, c))"

section \<open>The built-in checkers (format_checkers.go)\<close>

text \<open>
  Every \<open>IsFormat\<close> begins with the type assertion and returns false when it fails. The
  two library parsers that are not modelled are arguments: \<open>ParseAddress s\<close> and
  \<open>Compile s\<close> say whether \<open>mail.ParseAddress\<close> and \<open>regexp.Compile\<close> return no error.
\<close>

definition EmailFormatChecker_IsFormat :: "(string \<Rightarrow> bool) \<Rightarrow> FormatChecker" where
  "EmailFormatChecker_IsFormat ParseAddress input =
     (case asString input of
        None \<Rightarrow> False
      | Some s \<Rightarrow> ParseAddress s)"

definition IPV4FormatChecker_IsFormat :: FormatChecker where
  "IPV4FormatChecker_IsFormat input =
     (case asString input of
        None \<Rightarrow> False
      | Some s \<Rightarrow> ParseIP s \<noteq> None \<and> contains_byte s (CHR ''.''))"

definition IPV6FormatChecker_IsFormat :: FormatChecker where
  "IPV6FormatChecker_IsFormat input =
     (case asString input of
        None \<Rightarrow> False
      | Some s \<Rightarrow> ParseIP s \<noteq> None \<and> contains_byte s (CHR '':''))"

definition DateTimeFormatChecker_IsFormat :: FormatChecker where
  "DateTimeFormatChecker_IsFormat input =
     (case asString input of
        None \<Rightarrow> False
      | Some s \<Rightarrow>
          list_ex (\<lambda>format. time_Parse format s \<noteq> None)
            [layout_15_04_05, layout_15_04_05Z07_00, layout_2006_01_02, RFC3339, RFC3339Nano])"

definition DateFormatChecker_IsFormat :: FormatChecker where
  "DateFormatChecker_IsFormat input =
     (case asString input of
        None \<Rightarrow> False
      | Some s \<Rightarrow> time_Parse layout_2006_01_02 s \<noteq> None)"

definition TimeFormatChecker_IsFormat :: FormatChecker where
  "TimeFormatChecker_IsFormat input =
     (case asString input of
        None \<Rightarrow> False
      | Some s \<Rightarrow>
          if time_Parse layout_15_04_05Z07_00 s \<noteq> None then True
          else time_Parse layout_15_04_05 s \<noteq> None)"

text \<open>The backslash, the one byte that a string literal here cannot hold.\<close>

definition backslash :: char where
  "backslash = CHR 0x5C"

definition URIFormatChecker_IsFormat :: FormatChecker where
  "URIFormatChecker_IsFormat input =
     (case asString input of
        None \<Rightarrow> False
      | Some s \<Rightarrow>
          (case url_Parse s of
             None \<Rightarrow> False
           | Some u \<Rightarrow> if Scheme u = [] then False else \<not> contains_byte s backslash))"

definition URIReferenceFormatChecker_IsFormat :: FormatChecker where
  "URIReferenceFormatChecker_IsFormat input =
     (case asString input of
        None \<Rightarrow> False
      | Some s \<Rightarrow> url_Parse s \<noteq> None \<and> \<not> contains_byte s backslash)"

definition URITemplateFormatChecker_IsFormat :: FormatChecker where
  "URITemplateFormatChecker_IsFormat input =
     (case asString input of
        None \<Rightarrow> False
      | Some s \<Rightarrow>
          (case url_Parse s of
             None \<Rightarrow> False
           | Some u \<Rightarrow>
               if contains_byte s backslash then False
               else MatchString rxURITemplate (Path u)))"

definition HostnameFormatChecker_IsFormat :: FormatChecker where
  "HostnameFormatChecker_IsFormat input =
     (case asString input of
        None \<Rightarrow> False
      | Some s \<Rightarrow> MatchString rxHostname s \<and> length s < 256)"

text \<open>
  The UUID checker builds a \<open>DoesNotMatchFormatError\<close> when the assertion fails and drops
  it: the value it returns is false all the same.
\<close>

definition UUIDFormatChecker_IsFormat :: FormatChecker where
  "UUIDFormatChecker_IsFormat input =
     (case asString input of
        None \<Rightarrow> False
      | Some s \<Rightarrow> if \<not> MatchString rxUUID s then False else True)"

definition RegexFormatChecker_IsFormat :: "(string \<Rightarrow> bool) \<Rightarrow> FormatChecker" where
  "RegexFormatChecker_IsFormat Compile input =
     (case asString input of
        None \<Rightarrow> False
      | Some s \<Rightarrow> if s = [] then True else Compile s)"

definition JSONPointerFormatChecker_IsFormat :: FormatChecker where
  "JSONPointerFormatChecker_IsFormat input =
     (case asString input of
        None \<Rightarrow> False
      | Some s \<Rightarrow> MatchString rxJSONPointer s)"

definition RelativeJSONPointerFormatChecker_IsFormat :: FormatChecker where
  "RelativeJSONPointerFormatChecker_IsFormat input =
     (case asString input of
        None \<Rightarrow> False
      | Some s \<Rightarrow> MatchString rxRelJSONPointer s)"

text \<open>The fourteen built-in checkers, for the two library parsers given.\<close>

definition builtin_checkers :: "(string \<Rightarrow> bool) \<Rightarrow> (string \<Rightarrow> bool) \<Rightarrow> FormatChecker list" where
  "builtin_checkers ParseAddress Compile =
     [DateFormatChecker_IsFormat, TimeFormatChecker_IsFormat, DateTimeFormatChecker_IsFormat,
      HostnameFormatChecker_IsFormat, EmailFormatChecker_IsFormat ParseAddress,
      IPV4FormatChecker_IsFormat, IPV6FormatChecker_IsFormat, URIFormatChecker_IsFormat,
      URIReferenceFormatChecker_IsFormat, URITemplateFormatChecker_IsFormat,
      UUIDFormatChecker_IsFormat, RegexFormatChecker_IsFormat Compile,
      JSONPointerFormatChecker_IsFormat, RelativeJSONPointerFormatChecker_IsFormat]"

text \<open>The package's registry \<open>FormatCheckers\<close>, with its seventeen names.\<close>

definition FormatCheckers :: "(string \<Rightarrow> bool) \<Rightarrow> (string \<Rightarrow> bool) \<Rightarrow> FormatCheckerChain" where
  "FormatCheckers ParseAddress Compile =
     \<lparr>formatters =
        [''date'' \<mapsto> convertToNewChecker DateFormatChecker_IsFormat,
         ''time'' \<mapsto> convertToNewChecker TimeFormatChecker_IsFormat,
         ''date-time'' \<mapsto> convertToNewChecker DateTimeFormatChecker_IsFormat,
         ''hostname'' \<mapsto> convertToNewChecker HostnameFormatChecker_IsFormat,
         ''email'' \<mapsto> convertToNewChecker (EmailFormatChecker_IsFormat ParseAddress),
         ''idn-email'' \<mapsto> convertToNewChecker (EmailFormatChecker_IsFormat ParseAddress),
         ''ipv4'' \<mapsto> convertToNewChecker IPV4FormatChecker_IsFormat,
         ''ipv6'' \<mapsto> convertToNewChecker IPV6FormatChecker_IsFormat,
         ''uri'' \<mapsto> convertToNewChecker URIFormatChecker_IsFormat,
         ''uri-reference'' \<mapsto> convertToNewChecker URIReferenceFormatChecker_IsFormat,
         ''iri'' \<mapsto> convertToNewChecker URIFormatChecker_IsFormat,
         ''iri-reference'' \<mapsto> convertToNewChecker URIReferenceFormatChecker_IsFormat,
         ''uri-template'' \<mapsto> convertToNewChecker URITemplateFormatChecker_IsFormat,
         ''uuid'' \<mapsto> convertToNewChecker UUIDFormatChecker_IsFormat,
         ''regex'' \<mapsto> convertToNewChecker (RegexFormatChecker_IsFormat Compile),
         ''json-pointer'' \<mapsto> convertToNewChecker JSONPointerFormatChecker_IsFormat,
         ''relative-json-pointer'' \<mapsto>
           convertToNewChecker RelativeJSONPointerFormatChecker_IsFormat]\<rparr>"

section \<open>Package fmt: Sprintf\<close>

text \<open>
  An operand of \<open>Sprintf\<close> is a Go value of any type. What \<open>Sprintf\<close> needs of it is
  whether it is \<open>nil\<close> and, if not, the text of its type (\<open>reflect.TypeOf(arg).String()\<close>)
  and the text that \<open>printArg\<close> writes for it under each verb when no flag, width or
  precision is set. The model takes an operand to be just that.
\<close>

datatype operand =
    NilOperand
  | Operand string "char \<Rightarrow> string"

fun printArg :: "operand \<Rightarrow> char \<Rightarrow> string" where
  "printArg NilOperand verb =
     (if verb = CHR ''T'' \<or> verb = CHR ''v'' then ''<nil>''
      else ''%!'' @ [verb] @ ''(<nil>)'')"
| "printArg (Operand ty pr) verb = pr verb"

definition missingArg :: "char \<Rightarrow> string" where
  "missingArg verb = ''%!'' @ [verb] @ ''(MISSING)''"

text \<open>
  The report of the operands that no verb has used, which ends \<open>doPrintf\<close>: nothing when
  none is left, else \<^verbatim>\<open>%!(EXTRA type=value, type=value)\<close>, a \<open>nil\<close> showing as
  \<^verbatim>\<open><nil>\<close>.
\<close>

fun extraArg :: "operand \<Rightarrow> string" where
  "extraArg NilOperand = ''<nil>''"
| "extraArg (Operand ty pr) = ty @ ''='' @ printArg (Operand ty pr) (CHR ''v'')"

fun extraArgs :: "operand list \<Rightarrow> string" where
  "extraArgs [] = []"
| "extraArgs [x] = extraArg x"
| "extraArgs (x # y # ys) = extraArg x @ '', '' @ extraArgs (y # ys)"

definition extra :: "operand list \<Rightarrow> string" where
  "extra a = (if a = [] then [] else ''%!(EXTRA '' @ extraArgs a @ '')'')"

text \<open>
  A directive is a percent sign and what follows it. The model covers the directive that
  is a percent sign and one verb byte, as every format of locales.go has it. The byte
  after the percent sign starts something else when it is a flag, a digit of a width, a
  star, the dot of a precision, the bracket of an argument index or the first byte of a
  rune beyond ASCII.
\<close>

definition complex_directive :: "char \<Rightarrow> bool" where
  "complex_directive c = (c \<in> set ''#0+- 123456789*.['' \<or> 128 \<le> (of_char c :: nat))"

text \<open>
  \<open>doPrintf(format, a)\<close>, with the operands that are left instead of the index
  \<open>argNum\<close>: without an argument index the operands are used in order. Text is copied;
  \<^verbatim>\<open>%%\<close> writes a percent sign and takes no operand; a verb takes the next operand
  and prints it, or writes \<^verbatim>\<open>%!verb(MISSING)\<close> when none is left; a percent sign at
  the end of the format writes \<^verbatim>\<open>%!(NOVERB)\<close>. The result is \<open>None\<close> when the format
  has a directive the model does not cover.
\<close>

fun doPrintf :: "string \<Rightarrow> operand list \<Rightarrow> string option" where
  "doPrintf [] a = Some (extra a)"
| "doPrintf [c] a =
     (if c = CHR ''%'' then Some (''%!(NOVERB)'' @ extra a) else Some (c # extra a))"
| "doPrintf (c # verb # fs) a =
     (if c \<noteq> CHR ''%'' then map_option ((#) c) (doPrintf (verb # fs) a)
      else if complex_directive verb then None
      else if verb = CHR ''%'' then map_option ((#) (CHR ''%'')) (doPrintf fs a)
      else
        (case a of
           [] \<Rightarrow> map_option ((@) (missingArg verb)) (doPrintf fs [])
         | x # xs \<Rightarrow> map_option ((@) (printArg x verb)) (doPrintf fs xs)))"

text \<open>
  \<open>fmt.Sprintf\<close>. It returns a string for every format and every list of operands; for
  a format outside the model the string is what the argument \<open>unmodelled\<close> gives.
\<close>

definition fmt_Sprintf ::
  "(string \<Rightarrow> operand list \<Rightarrow> string) \<Rightarrow> string \<Rightarrow> operand list \<Rightarrow> string" where
  "fmt_Sprintf unmodelled format a =
     (case doPrintf format a of
        Some s \<Rightarrow> s
      | None \<Rightarrow> unmodelled format a)"

section \<open>Message makers (locales.go)\<close>

record Message =
  Code :: string
  Description :: string

text \<open>
  \<open>newMessageMaker(code, format)\<close> returns a closure over \<open>code\<close> and \<open>format\<close> that
  formats its arguments with \<open>fmt.Sprintf\<close>.
\<close>

type_synonym messageMaker = "operand list \<Rightarrow> Message"

definition newMessageMaker ::
  "(string \<Rightarrow> operand list \<Rightarrow> string) \<Rightarrow> string \<Rightarrow> string \<Rightarrow> messageMaker" where
  "newMessageMaker unmodelled code format =
     (\<lambda>args. let description = fmt_Sprintf unmodelled format args
             in \<lparr>Code = code, Description = description\<rparr>)"

definition X_IS_NOT_A_VALID_TYPE :: string where
  "X_IS_NOT_A_VALID_TYPE = ''X_IS_NOT_A_VALID_TYPE''"

definition X_MUST_BE_OF_TYPE_Y :: string where
  "X_MUST_BE_OF_TYPE_Y = ''X_MUST_BE_OF_TYPE_Y''"

definition ERROR_MESSAGE_X_IS_NOT_A_VALID_TYPE ::
  "(string \<Rightarrow> operand list \<Rightarrow> string) \<Rightarrow> messageMaker" where
  "ERROR_MESSAGE_X_IS_NOT_A_VALID_TYPE unmodelled =
     newMessageMaker unmodelled X_IS_NOT_A_VALID_TYPE ''%s is not a valid type''"

definition ERROR_MESSAGE_X_MUST_BE_OF_TYPE_Y ::
  "(string \<Rightarrow> operand list \<Rightarrow> string) \<Rightarrow> messageMaker" where
  "ERROR_MESSAGE_X_MUST_BE_OF_TYPE_Y unmodelled =
     newMessageMaker unmodelled X_MUST_BE_OF_TYPE_Y ''%s must be of type %s''"

text \<open>The codes and formats that the \<open>var\<close> block of locales.go binds.\<close>

definition message_bindings :: "(string \<times> string) list" where
  "message_bindings =
     [(''X_IS_NOT_A_VALID_TYPE'', ''%s is not a valid type''),
      (''X_TYPE_IS_DUPLICATED'', ''%s type is duplicated''),
      (''X_MUST_BE_OF_TYPE_Y'', ''%s must be of type %s''),
      (''X_MUST_BE_A_Y'', ''%s must be of a %s''),
      (''X_MUST_BE_AN_Y'', ''%s must be of an %s''),
      (''X_IS_MISSING_AND_REQUIRED'', ''%s is missing and required''),
      (''MUST_BE_OF_TYPE_X'', ''must be of type %s''),
      (''X_ITEMS_MUST_BE_UNIQUE'', ''%s items must be unique''),
      (''X_ITEMS_MUST_BE_TYPE_Y'', ''%s items must be %s''),
      (''DOES_NOT_MATCH_PATTERN'', ''does not match pattern '' @ [CHR 0x27] @ ''%s'' @ [CHR 0x27]),
      (''MUST_MATCH_ONE_ENUM_VALUES'', ''must match one of the enum values [%s]''),
      (''STRING_LENGTH_MUST_BE_GREATER_OR_EQUAL'', ''string length must be greater or equal to %d''),
      (''STRING_LENGTH_MUST_BE_LOWER_OR_EQUAL'', ''string length must be lower or equal to %d''),
      (''NUMBER_MUST_BE_LOWER_OR_EQUAL'', ''must be lower than or equal to %s''),
      (''NUMBER_MUST_BE_LOWER'', ''must be lower than %s''),
      (''NUMBER_MUST_BE_GREATER_OR_EQUAL'', ''must be greater than or equal to %s''),
      (''NUMBER_MUST_BE_GREATER'', ''must be greater than %s''),
      (''NUMBER_MUST_VALIDATE_ALLOF'', ''must validate all the schemas (allOf)''),
      (''NUMBER_MUST_VALIDATE_ONEOF'', ''must validate one and only one schema (oneOf)''),
      (''NUMBER_MUST_VALIDATE_ANYOF'', ''must validate at least one schema (anyOf)''),
      (''NUMBER_MUST_VALIDATE_NOT'', ''must not validate the schema (not)''),
      (''ARRAY_MIN_ITEMS'', ''array must have at least %d items''),
      (''ARRAY_MAX_ITEMS'', ''array must have at the most %d items''),
      (''ARRAY_MIN_PROPERTIES'', ''must have at least %d properties''),
      (''ARRAY_MAX_PROPERTIES'', ''must have at the most %d properties''),
      (''HAS_DEPENDENCY_ON'', ''has a dependency on %s''),
      (''MULTIPLE_OF'', ''must be a multiple of %s''),
      (''ARRAY_NO_ADDITIONAL_ITEM'', ''no additional item allowed on array''),
      (''ADDITIONAL_PROPERTY_NOT_ALLOWED'', ''additional property \"%s\" is not allowed''),
      (''INVALID_PATTERN_PROPERTY'', ''property \"%s\" does not match pattern %s''),
      (''INTERNAL'', ''internal error %s''),
      (''GET_HTTP_BAD_STATUS'', ''Could not read schema from HTTP, response status is %d''),
      (''NEW_SCHEMA_DOCUMENT_INVALID_ARGUMENT'',
       ''Invalid argument, must be a JSON string, a JSON reference string or a map[string]interface{}''),
      (''INVALID_REGEX_PATTERN'', ''Invalid regex pattern '' @ [CHR 0x27] @ ''%s'' @ [CHR 0x27]),
      (''X_MUST_BE_VALID_REGEX'', ''%s must be a valid regex''),
      (''X_MUST_BE_GREATER_OR_TO_0'', ''%s must be greater than or equal to 0''),
      (''X_CANNOT_BE_GREATER_THAN_Y'', ''%s cannot be greater than %s''),
      (''X_MUST_BE_STRICTLY_GREATER_THAN_0'', ''%s must be strictly greater than 0''),
      (''X_CANNOT_BE_USED_WITHOUT_Y'', ''%s cannot be used without %s''),
      (''REFERENCE_X_MUST_BE_CANONICAL'', ''Reference %s must be canonical'')]"

section \<open>The date grammar, as the specification words it\<close>

text \<open>
  A full date is \<open>YYYY-MM-DD\<close>: four digits, a hyphen, two digits, a hyphen, two digits,
  with a month from 01 to 12 and a day the month has in that year, February having 29
  days in a leap year of the Gregorian calendar.
\<close>

definition spec_leap_year :: "int \<Rightarrow> bool" where
  "spec_leap_year y = (y mod 4 = 0 \<and> (y mod 100 \<noteq> 0 \<or> y mod 400 = 0))"

definition spec_days_in_month :: "int \<Rightarrow> int \<Rightarrow> int" where
  "spec_days_in_month y m =
     (if m = 2 then (if spec_leap_year y then 29 else 28)
      else if m \<in> {4, 6, 9, 11} then 30 else 31)"

fun spec_full_date :: "string \<Rightarrow> bool" where
  "spec_full_date [y1, y2, y3, y4, s1, m1, m2, s2, d1, d2] =
     (is_digit y1 \<and> is_digit y2 \<and> is_digit y3 \<and> is_digit y4 \<and> s1 = CHR ''-'' \<and>
      is_digit m1 \<and> is_digit m2 \<and> s2 = CHR ''-'' \<and> is_digit d1 \<and> is_digit d2 \<and>
      (let year = 1000 * digit_val y1 + 100 * digit_val y2 + 10 * digit_val y3 + digit_val y4;
           month = 10 * digit_val m1 + digit_val m2;
           day = 10 * digit_val d1 + digit_val d2
       in 1 \<le> month \<and> month \<le> 12 \<and> 1 \<le> day \<and> day \<le> spec_days_in_month year month))"
| "spec_full_date _ = False"

section \<open>The time grammar and the template braces, as the specification words them\<close>

text \<open>
  A time is \<open>HH:MM:SS\<close> with an hour up to 23, a minute up to 59 and a second up to 60,
  then nothing, or \<open>Z\<close>, or a sign and \<open>HH:MM\<close>.
\<close>

fun spec_time_offset :: "string \<Rightarrow> bool" where
  "spec_time_offset [] = True"
| "spec_time_offset [z] = (z = CHR ''Z'')"
| "spec_time_offset [sg, h1, h2, c, m1, m2] =
     ((sg = CHR ''+'' \<or> sg = CHR ''-'') \<and> is_digit h1 \<and> is_digit h2 \<and> c = CHR '':'' \<and>
      is_digit m1 \<and> is_digit m2)"
| "spec_time_offset _ = False"

fun spec_time :: "string \<Rightarrow> bool" where
  "spec_time (h1 # h2 # c1 # m1 # m2 # c2 # s1 # s2 # rest) =
     (is_digit h1 \<and> is_digit h2 \<and> c1 = CHR '':'' \<and> is_digit m1 \<and> is_digit m2 \<and>
      c2 = CHR '':'' \<and> is_digit s1 \<and> is_digit s2 \<and>
      10 * digit_val h1 + digit_val h2 \<le> 23 \<and>
      10 * digit_val m1 + digit_val m2 \<le> 59 \<and>
      10 * digit_val s1 + digit_val s2 \<le> 60 \<and>
      spec_time_offset rest)"
| "spec_time _ = False"

text \<open>
  The braces of a path are balanced and not nested when, read from the left, every
  opening brace stands outside an expression and every closing brace inside one, and the
  path ends outside. The flag says whether the reader is inside an expression.
\<close>

fun spec_braces :: "bool \<Rightarrow> string \<Rightarrow> bool" where
  "spec_braces inside [] = (\<not> inside)"
| "spec_braces inside (c # cs) =
     (if c = CHR ''{'' then (if inside then False else spec_braces True cs)
      else if c = CHR ''}'' then (if inside then spec_braces False cs else False)
      else spec_braces inside cs)"

section \<open>The argument count of a template\<close>

text \<open>
  The number of arguments a template asks for is the number of its verbs, \<^verbatim>\<open>%%\<close>
  not counted. A template is plain when each of its directives is a percent sign and one
  verb byte. A verb that finds no argument shows as the operand \<open>missing_operand\<close>
  would print under it.
\<close>

fun template_arity :: "string \<Rightarrow> nat" where
  "template_arity [] = 0"
| "template_arity [c] = 0"
| "template_arity (c # verb # fs) =
     (if c \<noteq> CHR ''%'' then template_arity (verb # fs)
      else if verb = CHR ''%'' then template_arity fs
      else Suc (template_arity fs))"

fun plain_template :: "string \<Rightarrow> bool" where
  "plain_template [] = True"
| "plain_template [c] = True"
| "plain_template (c # verb # fs) =
     (if c \<noteq> CHR ''%'' then plain_template (verb # fs)
      else \<not> complex_directive verb \<and> plain_template fs)"

definition missing_operand :: operand where
  "missing_operand = Operand [] (\<lambda>verb. ''%!'' @ [verb] @ ''(MISSING)'')"

text \<open>The text \<open>p\<close> stands somewhere in the text \<open>s\<close>.\<close>

fun has_infix :: "string \<Rightarrow> string \<Rightarrow> bool" where
  "has_infix p [] = (p = [])"
| "has_infix p (c # cs) = (take (length p) (c # cs) = p \<or> has_infix p cs)"

section \<open>Properties of the registry\<close>

text \<open>
  C1: for every value and every name with no checker registered, the chain's \<open>IsFormat\<close>
  returns true; with a checker registered under the name, it returns that checker's
  verdict on the value unmodified. The third part says the same of a checker that was
  just added under the name.
\<close>

theorem IsFormat_unregistered_true_registered_delegates:
  "(formatters c name = None \<longrightarrow> fst (FormatCheckerChain_IsFormat name v c) = True) \<and>
   (\<forall>k. formatters c name = Some k \<longrightarrow>
      fst (FormatCheckerChain_IsFormat name v c) = FormatCheckerWithError_IsFormat k v) \<and>
   fst (FormatCheckerChain_IsFormat name v (FormatCheckerChain_Add name f c)) = f v"
  by (simp add: FormatCheckerChain_IsFormat_def FormatCheckerChain_Add_def
      convertToNewChecker_def)

theorem IsFormat_unregistered_true_registered_delegates_witness:
  "formatters \<lparr>formatters = Map.empty\<rparr> ''color'' = None \<and>
   fst (FormatCheckerChain_IsFormat ''color'' (Number 3) \<lparr>formatters = Map.empty\<rparr>) = True \<and>
   formatters (FormatCheckerChain_Add ''color'' (\<lambda>x. x = Null) \<lparr>formatters = Map.empty\<rparr>) ''color''
     = Some (NewChecker (\<lambda>x. x = Null)) \<and>
   fst (FormatCheckerChain_IsFormat ''color'' (Number 3)
         (FormatCheckerChain_Add ''color'' (\<lambda>x. x = Null) \<lparr>formatters = Map.empty\<rparr>)) = False"
  using IsFormat_unregistered_true_registered_delegates
    [of "\<lparr>formatters = Map.empty\<rparr>" "''color''" "Number 3" "\<lambda>x. x = Null"]
    IsFormat_unregistered_true_registered_delegates
    [of "FormatCheckerChain_Add ''color'' (\<lambda>x. x = Null) \<lparr>formatters = Map.empty\<rparr>"
        "''color''" "Number 3" "\<lambda>x. x = Null"]
  by (simp add: FormatCheckerChain_Add_def convertToNewChecker_def)

text \<open>
  C7: \<open>Has(n)\<close> is read, then \<open>Add(n, k)\<close> and \<open>Remove(n)\<close> run, then \<open>Has(n)\<close> is read
  again. The second reading is always false, so it equals the first exactly when no
  binding for \<open>n\<close> existed before the \<open>Add\<close>; an earlier binding is not restored.
\<close>

theorem Add_then_Remove_restores_Has_iff_unbound:
  "fst (FormatCheckerChain_Has n
         (FormatCheckerChain_Remove n
           (FormatCheckerChain_Add n k (snd (FormatCheckerChain_Has n c))))) = False \<and>
   ((fst (FormatCheckerChain_Has n
         (FormatCheckerChain_Remove n
           (FormatCheckerChain_Add n k (snd (FormatCheckerChain_Has n c)))))
      = fst (FormatCheckerChain_Has n c))
    = (formatters c n = None))"
  by (simp add: FormatCheckerChain_Has_def FormatCheckerChain_Remove_def
      FormatCheckerChain_Add_def split: option.split)

text \<open>
  C9: the two queries \<open>Has\<close> and \<open>IsFormat\<close> leave the chain as they found it: the map
  from names to checkers after the call is the map before it.
\<close>

theorem Has_and_IsFormat_leave_registry_unchanged:
  "snd (FormatCheckerChain_Has n c) = c \<and>
   snd (FormatCheckerChain_IsFormat n v c) = c \<and>
   formatters (snd (FormatCheckerChain_Has n c)) = formatters c \<and>
   formatters (snd (FormatCheckerChain_IsFormat n v c)) = formatters c"
  by (simp add: FormatCheckerChain_Has_def FormatCheckerChain_IsFormat_def
      split: option.split)

section \<open>Properties of the built-in checkers\<close>

lemma digit_val_bounds: "is_digit c \<Longrightarrow> 0 \<le> digit_val c \<and> digit_val c \<le> 9"
  by (auto simp: is_digit_def digit_val_def)

lemma is_digit_not_sign: "is_digit c \<Longrightarrow> c \<noteq> CHR ''-'' \<and> c \<noteq> CHR ''+''"
  by (auto simp: is_digit_def)

lemma atoi_four_digits:
  assumes "is_digit a"
  shows "atoi [a, b, c, d] =
     (if is_digit b \<and> is_digit c \<and> is_digit d
      then Some (1000 * digit_val a + 100 * digit_val b + 10 * digit_val c + digit_val d)
      else None)"
  using assms digit_val_bounds[of a] digit_val_bounds[of b] digit_val_bounds[of c]
    digit_val_bounds[of d] is_digit_not_sign[of a]
  by (auto simp: atoi_def)

lemma daysIn_spec: "daysIn m y = spec_days_in_month y m"
  by (auto simp: daysIn_def spec_days_in_month_def isLeap_def spec_leap_year_def)

lemma time_Parse_date_iff: "(time_Parse layout_2006_01_02 s \<noteq> None) = spec_full_date s"
proof (cases s rule: spec_full_date.cases)
  case (1 y1 y2 y3 y4 s1 m1 m2 s2 d1 d2)
  then show ?thesis
    using digit_val_bounds[of m1] digit_val_bounds[of m2]
      digit_val_bounds[of d1] digit_val_bounds[of d2]
    by (auto simp: time_Parse_def layout_2006_01_02_def atoi_four_digits daysIn_spec Let_def
        mult.commute split: option.splits if_splits)
qed (auto simp: time_Parse_def layout_2006_01_02_def atoi_four_digits
      split: option.splits if_splits)

text \<open>
  C2: a value that is not a string is rejected by each of the fourteen built-in checkers,
  and so by the package's registry under every name it has a checker for.
\<close>

theorem builtin_checkers_reject_non_strings:
  assumes "\<forall>s. v \<noteq> String s"
  shows "(\<forall>k \<in> set (builtin_checkers ParseAddress Compile). k v = False) \<and>
         (\<forall>name. formatters (FormatCheckers ParseAddress Compile) name \<noteq> None \<longrightarrow>
            fst (FormatCheckerChain_IsFormat name v (FormatCheckers ParseAddress Compile)) = False)"
proof -
  have a: "asString v = None"
    using assms by (cases v) auto
  have each: "\<forall>k \<in> set (builtin_checkers ParseAddress Compile). k v = False"
    by (simp add: builtin_checkers_def a
        DateFormatChecker_IsFormat_def TimeFormatChecker_IsFormat_def
        DateTimeFormatChecker_IsFormat_def HostnameFormatChecker_IsFormat_def
        EmailFormatChecker_IsFormat_def IPV4FormatChecker_IsFormat_def
        IPV6FormatChecker_IsFormat_def URIFormatChecker_IsFormat_def
        URIReferenceFormatChecker_IsFormat_def URITemplateFormatChecker_IsFormat_def
        UUIDFormatChecker_IsFormat_def RegexFormatChecker_IsFormat_def
        JSONPointerFormatChecker_IsFormat_def RelativeJSONPointerFormatChecker_IsFormat_def)
  have chain: "fst (FormatCheckerChain_IsFormat name v (FormatCheckers ParseAddress Compile)) = False"
    if "formatters (FormatCheckers ParseAddress Compile) name \<noteq> None" for name
    using that each
    by (auto simp: FormatCheckerChain_IsFormat_def FormatCheckers_def convertToNewChecker_def
        builtin_checkers_def split: if_splits)
  show ?thesis using each chain by blast
qed

theorem builtin_checkers_reject_non_strings_witness:
  "(\<forall>s. Sequence [Null, Number 1] \<noteq> String s) \<and>
   UUIDFormatChecker_IsFormat (Sequence [Null, Number 1]) = False \<and>
   EmailFormatChecker_IsFormat (\<lambda>s. True) (Sequence [Null, Number 1]) = False \<and>
   formatters (FormatCheckers (\<lambda>s. True) (\<lambda>s. True)) ''uuid'' \<noteq> None \<and>
   fst (FormatCheckerChain_IsFormat ''uuid'' (Sequence [Null, Number 1])
         (FormatCheckers (\<lambda>s. True) (\<lambda>s. True))) = False"
proof -
  have h: "\<forall>s. Sequence [Null, Number 1] \<noteq> String s" by simp
  have r: "formatters (FormatCheckers (\<lambda>s. True) (\<lambda>s. True)) ''uuid'' \<noteq> None"
    by (simp add: FormatCheckers_def)
  show ?thesis
    using h r builtin_checkers_reject_non_strings
      [OF h, of "\<lambda>s. True" "\<lambda>s. True"]
    by (simp add: builtin_checkers_def)
qed

text \<open>
  C3: the time checker rejects \<open>23:59:60\<close>, a time by the grammar of the specification:
  \<open>time.Parse\<close> takes a second from 00 to 59 only, with or without a zone. The comment
  on \<open>TimeFormatChecker\<close> gives the range of the seconds as 00-60.
\<close>

theorem TimeFormatChecker_rejects_leap_second:
  "TimeFormatChecker_IsFormat (String ''23:59:60'') = False \<and>
   spec_time ''23:59:60'' = True \<and>
   TimeFormatChecker_IsFormat (String ''23:59:60Z'') = False \<and>
   spec_time ''23:59:60Z'' = True \<and>
   TimeFormatChecker_IsFormat (String ''23:59:59'') = True"
  by (simp add: TimeFormatChecker_IsFormat_def time_Parse_def layout_15_04_05_def
      layout_15_04_05Z07_00_def parse_tz_def is_digit_def digit_val_def daysIn_def)

text \<open>
  Beside the leap second, the checker differs from \<open>HH:MM:SS\<close> in two more ways that
  come with \<open>time.Parse\<close>: the hour of the layout \<^verbatim>\<open>15\<close> may have one digit, and a
  fraction may follow the seconds though the layout has none.
\<close>

lemma TimeFormatChecker_accepts_short_hour_and_fraction:
  "TimeFormatChecker_IsFormat (String ''1:02:03'') = True \<and>
   TimeFormatChecker_IsFormat (String ''12:00:00.5'') = True"
  by (simp add: TimeFormatChecker_IsFormat_def time_Parse_def layout_15_04_05_def
      layout_15_04_05Z07_00_def parse_tz_def is_digit_def digit_val_def daysIn_def
      commaOrPeriod_def parseNanoseconds_def atoi_def)

text \<open>
  C4: the date checker accepts a string exactly when it is a full date \<open>YYYY-MM-DD\<close> with
  a day that the month has in that year; 2023-02-29 is rejected and 2024-02-29 accepted.
\<close>

theorem DateFormatChecker_accepts_exactly_full_dates:
  "DateFormatChecker_IsFormat (String s) = spec_full_date s \<and>
   DateFormatChecker_IsFormat (String ''2023-02-29'') = False \<and>
   DateFormatChecker_IsFormat (String ''2024-02-29'') = True"
proof -
  have "DateFormatChecker_IsFormat (String x) = spec_full_date x" for x
    using time_Parse_date_iff [of x] by (simp add: DateFormatChecker_IsFormat_def)
  moreover have "spec_full_date ''2023-02-29'' = False"
    by (simp add: is_digit_def digit_val_def spec_days_in_month_def spec_leap_year_def)
  moreover have "spec_full_date ''2024-02-29'' = True"
    by (simp add: is_digit_def digit_val_def spec_days_in_month_def spec_leap_year_def)
  ultimately show ?thesis by simp
qed

lemmas url_Parse_defs = url_Parse_def parse_def Cut_def getScheme_def
  stringContainsCTLByte_def is_lower_def is_upper_def is_digit_def toLower_def
  contains_byte_def parseAuthority_def parseHost_def LastIndex_def shouldEscape_def Let_def

lemma url_Parse_http_example_com:
  "url_Parse ''http://example.com'' =
     Some \<lparr>Scheme = ''http'', Opaque = [], User = None, Host = ''example.com'', Path = [],
           ForceQuery = False, RawQuery = [], Fragment = []\<rparr>"
  by (simp add: url_Parse_defs)

lemma url_Parse_example_com:
  "url_Parse ''example.com'' =
     Some \<lparr>Scheme = [], Opaque = [], User = None, Host = [], Path = ''example.com'',
           ForceQuery = False, RawQuery = [], Fragment = []\<rparr>"
  by (simp add: url_Parse_defs)

lemma url_Parse_closing_brace:
  "url_Parse ''}'' =
     Some \<lparr>Scheme = [], Opaque = [], User = None, Host = [], Path = ''}'',
           ForceQuery = False, RawQuery = [], Fragment = []\<rparr>"
  by (simp add: url_Parse_defs)

lemma url_Parse_nested_braces:
  "url_Parse ''/{a{b}c}'' =
     Some \<lparr>Scheme = [], Opaque = [], User = None, Host = [], Path = ''/{a{b}c}'',
           ForceQuery = False, RawQuery = [], Fragment = []\<rparr>"
  by (simp add: url_Parse_defs)

text \<open>
  C5: the uri checker accepts a string exactly when \<open>url.Parse\<close> returns a URL with a
  scheme that is not empty and the string has no backslash. It accepts
  \<open>http://example.com\<close> and rejects \<open>example.com\<close>, and \<open>http:\<close> followed by one or two
  backslashes and \<open>evil\<close>.
\<close>

theorem URIFormatChecker_iff_scheme_and_no_backslash:
  "URIFormatChecker_IsFormat (String s) =
     ((\<exists>u. url_Parse s = Some u \<and> Scheme u \<noteq> []) \<and> \<not> contains_byte s backslash) \<and>
   URIFormatChecker_IsFormat (String ''http://example.com'') = True \<and>
   URIFormatChecker_IsFormat (String ''example.com'') = False \<and>
   URIFormatChecker_IsFormat (String (''http:'' @ [backslash] @ ''evil'')) = False \<and>
   URIFormatChecker_IsFormat (String (''http:'' @ [backslash, backslash] @ ''evil'')) = False"
proof -
  have iff: "URIFormatChecker_IsFormat (String x) =
     ((\<exists>u. url_Parse x = Some u \<and> Scheme u \<noteq> []) \<and> \<not> contains_byte x backslash)" for x
    by (auto simp: URIFormatChecker_IsFormat_def split: option.split)
  have "URIFormatChecker_IsFormat (String ''http://example.com'') = True"
    by (simp add: URIFormatChecker_IsFormat_def url_Parse_http_example_com
        contains_byte_def backslash_def)
  moreover have "URIFormatChecker_IsFormat (String ''example.com'') = False"
    by (simp add: URIFormatChecker_IsFormat_def url_Parse_example_com)
  moreover have "URIFormatChecker_IsFormat (String (''http:'' @ [backslash] @ ''evil'')) = False"
    unfolding iff by (simp add: contains_byte_def)
  moreover have
    "URIFormatChecker_IsFormat (String (''http:'' @ [backslash, backslash] @ ''evil'')) = False"
    unfolding iff by (simp add: contains_byte_def)
  ultimately show ?thesis using iff by simp
qed

text \<open>
  C6: the uri-template checker accepts \<open>}\<close>, a path with a closing brace that nothing
  opens, and \<open>/{a{b}c}\<close>, a path with one expression inside another; neither has
  balanced, non-nested braces. The pattern \<open>rxURITemplate\<close> lets a closing brace stand
  outside an expression and an opening brace inside one. The comment on the pattern says
  it makes sure the braces are balanced.
\<close>

theorem URITemplateFormatChecker_accepts_unbalanced_braces:
  "URITemplateFormatChecker_IsFormat (String ''}'') = True \<and>
   spec_braces False ''}'' = False \<and>
   URITemplateFormatChecker_IsFormat (String ''/{a{b}c}'') = True \<and>
   spec_braces False ''/{a{b}c}'' = False"
  by (simp add: URITemplateFormatChecker_IsFormat_def url_Parse_closing_brace
      url_Parse_nested_braces contains_byte_def backslash_def rxURITemplate_def Lit_def
      Quest_def class_matches_def in_range_def)

text \<open>
  C10: the IPv4-mapped IPv6 literal \<open>::ffff:192.168.0.1\<close> has a dot and a colon and parses
  as an IP address, so both the ipv4 and the ipv6 checker accept it.
\<close>

theorem IPV4_and_IPV6_checkers_both_accept_mapped_address:
  "IPV4FormatChecker_IsFormat (String ''::ffff:192.168.0.1'') = True \<and>
   IPV6FormatChecker_IsFormat (String ''::ffff:192.168.0.1'') = True \<and>
   contains_byte ''::ffff:192.168.0.1'' (CHR ''.'') \<and>
   contains_byte ''::ffff:192.168.0.1'' (CHR '':'') \<and>
   ParseIP ''::ffff:192.168.0.1'' \<noteq> None"
  by (simp add: IPV4FormatChecker_IsFormat_def IPV6FormatChecker_IsFormat_def ParseIP_def
      ParseAddr_def parseIPv6_def parseIPv4Fields_def contains_byte_def ishex_def
      is_digit_def digit_val_def unhex_def hex_value_def Let_def)

section \<open>Properties of the message makers\<close>

lemma extra_Nil: "extra [] = []"
  by (simp add: extra_def)

lemma printArg_missing_operand: "printArg missing_operand verb = missingArg verb"
  by (simp add: missing_operand_def missingArg_def)

text \<open>A plain template is within the model, whatever the operands.\<close>

lemma doPrintf_plain_defined:
  "plain_template f \<Longrightarrow> \<exists>s. doPrintf f a = Some s"
  by (induction f a rule: doPrintf.induct) (auto split: list.splits)

text \<open>Operands beyond the template's count are reported after the filled template.\<close>

lemma doPrintf_surplus:
  "plain_template f \<Longrightarrow> length xs = template_arity f \<Longrightarrow>
   doPrintf f (xs @ ys) = map_option (\<lambda>s. s @ extra ys) (doPrintf f xs)"
proof (induction f xs rule: doPrintf.induct)
  case (1 a)
  then show ?case by (simp add: extra_Nil)
next
  case (2 c a)
  then show ?case by (simp add: extra_Nil)
next
  case (3 c verb fs a)
  then show ?case
    by (cases a) (auto simp: option.map_comp comp_def split: if_splits)
qed

text \<open>With too few operands, each verb that finds none prints as \<open>missing_operand\<close>.\<close>

lemma doPrintf_shortage:
  "plain_template f \<Longrightarrow> length a \<le> template_arity f \<Longrightarrow>
   doPrintf f a = doPrintf f (a @ replicate (template_arity f - length a) missing_operand)"
proof (induction f a rule: doPrintf.induct)
  case (1 a)
  then show ?case by simp
next
  case (2 c a)
  then show ?case by simp
next
  case (3 c verb fs a)
  then show ?case
    by (cases a) (auto simp: printArg_missing_operand split: if_splits)
qed

lemma bindings_plain: "list_all (\<lambda>b. plain_template (snd b)) message_bindings"
  by (simp add: message_bindings_def complex_directive_def)

lemma Description_plain:
  assumes "plain_template format"
  shows "doPrintf format a = Some (Description (newMessageMaker unmodelled code format a))"
  using doPrintf_plain_defined [OF assms, of a]
  by (auto simp: newMessageMaker_def fmt_Sprintf_def)

lemma Some_eq_trans: "x = Some u \<Longrightarrow> y = Some v \<Longrightarrow> x = y \<Longrightarrow> u = v"
  by simp

lemma Some_eq_map: "x = Some u \<Longrightarrow> y = Some v \<Longrightarrow> x = map_option g y \<Longrightarrow> u = g v"
  by simp

text \<open>The two lemmas on \<open>doPrintf\<close>, for the description of a maker with a plain template.\<close>

lemma Description_shortage: "Description (newMessageMaker unmodelled c f a) =
      Description (newMessageMaker unmodelled c f
        (a @ replicate (template_arity f - length a) missing_operand))"
    if "plain_template f" "length a < template_arity f" for c f a
proof -
  have 0: "length a \<le> template_arity f" using that(2) by simp
  show ?thesis
    by (rule Some_eq_trans [OF Description_plain [OF that(1)] Description_plain [OF that(1)]
          doPrintf_shortage [OF that(1) 0]])
qed

lemma Description_surplus: "Description (newMessageMaker unmodelled c f a) =
      Description (newMessageMaker unmodelled c f (take (template_arity f) a))
        @ ''%!(EXTRA '' @ extraArgs (drop (template_arity f) a) @ '')''"
    if "plain_template f" "template_arity f < length a" for c f a
proof -
  have len: "length (take (template_arity f) a) = template_arity f"
    using that(2) by simp
  have ne: "drop (template_arity f) a \<noteq> []"
    using that(2) by simp
  have 1: "doPrintf f (take (template_arity f) a @ drop (template_arity f) a) =
      map_option (\<lambda>s. s @ extra (drop (template_arity f) a))
        (doPrintf f (take (template_arity f) a))"
    by (rule doPrintf_surplus [OF that(1) len])
  have 2: "extra (drop (template_arity f) a) =
      ''%!(EXTRA '' @ extraArgs (drop (template_arity f) a) @ '')''"
    using ne by (simp only: extra_def if_False)
  have "Description (newMessageMaker unmodelled c f
          (take (template_arity f) a @ drop (template_arity f) a)) =
      Description (newMessageMaker unmodelled c f (take (template_arity f) a))
        @ extra (drop (template_arity f) a)"
    by (rule Some_eq_map [OF Description_plain [OF that(1)] Description_plain [OF that(1)] 1])
  then show ?thesis
    unfolding 2 append_take_drop_id .
qed

lemma has_infix_Cons: "has_infix p s \<Longrightarrow> has_infix p (c # s)"
  by simp

lemma has_infix_append: "has_infix p s \<Longrightarrow> has_infix p (t @ s)"
  by (induction t) simp_all

lemma has_infix_prefix: "has_infix p (p @ s)"
proof (cases "p @ s")
  case Nil
  then show ?thesis by simp
next
  case (Cons a list)
  have "take (length p) (p @ s) = p" by simp
  then show ?thesis unfolding Cons by simp
qed

lemma has_infix_missingArg: "has_infix ''(MISSING)'' (missingArg verb @ s)"
proof -
  have "has_infix ''(MISSING)'' (''(MISSING)'' @ s)"
    by (rule has_infix_prefix)
  then have "has_infix ''(MISSING)'' ((''%!'' @ [verb]) @ ''(MISSING)'' @ s)"
    by (rule has_infix_append)
  then show ?thesis
    by (simp add: missingArg_def)
qed

lemma doPrintf_shortage_MISSING:
  "plain_template f \<Longrightarrow> length a < template_arity f \<Longrightarrow> doPrintf f a = Some s \<Longrightarrow>
   has_infix ''(MISSING)'' s"
proof (induction f a arbitrary: s rule: doPrintf.induct)
  case (1 a)
  then show ?case by simp
next
  case (2 c a)
  then show ?case by simp
next
  case (3 c verb fs a)
  show ?case
  proof (cases "c = CHR ''%''")
    case False
    with 3 obtain s' where "doPrintf (verb # fs) a = Some s'" "s = c # s'"
      by auto
    with 3 False show ?thesis
      by (auto intro: has_infix_Cons)
  next
    case pct: True
    show ?thesis
    proof (cases "verb = CHR ''%''")
      case True
      with 3 pct obtain s' where "doPrintf fs a = Some s'" "s = CHR ''%'' # s'"
        by auto
      with 3 pct True show ?thesis
        by (auto intro: has_infix_Cons)
    next
      case verb: False
      show ?thesis
      proof (cases a)
        case Nil
        with 3 pct verb obtain s' where "s = missingArg verb @ s'"
          by auto
        then show ?thesis
          by (simp only: has_infix_missingArg)
      next
        case (Cons x xs)
        with 3 pct verb obtain s' where s': "doPrintf fs xs = Some s'" "s = printArg x verb @ s'"
          by auto
        have "has_infix ''(MISSING)'' s'"
          using 3 pct verb Cons s' by auto
        then show ?thesis
          unfolding s'(2) by (rule has_infix_append)
      qed
    qed
  qed
qed

lemma Description_shortage_MISSING:
  assumes "plain_template f" "length a < template_arity f"
  shows "has_infix ''(MISSING)'' (Description (newMessageMaker unmodelled c f a))"
  by (rule doPrintf_shortage_MISSING [OF assms Description_plain [OF assms(1)]])

lemma Description_surplus_EXTRA:
  assumes "plain_template f" "template_arity f < length a"
  shows "has_infix ''%!(EXTRA '' (Description (newMessageMaker unmodelled c f a))"
proof -
  have "has_infix ''%!(EXTRA ''
      (Description (newMessageMaker unmodelled c f (take (template_arity f) a))
        @ ''%!(EXTRA '' @ extraArgs (drop (template_arity f) a) @ '')'')"
    by (rule has_infix_append [OF has_infix_prefix])
  then show ?thesis
    by (simp only: Description_surplus [OF assms, symmetric])
qed

lemma bindings_plain_member: "b \<in> set message_bindings \<Longrightarrow> plain_template (snd b)"
  using bindings_plain by (simp only: list_all_iff)

text \<open>
  C8: a message maker returns, for every list of operands of any length, a message whose
  code is the bound code; it has no other outcome. For each of the forty bindings of
  locales.go the description is what \<open>doPrintf\<close> writes for the template and the
  operands, and a count of operands that is not the template's shows in it: with too few
  operands the description is the one that the operands followed by \<open>missing_operand\<close>
  for each absent one would give, so every verb without an operand reads
  \<^verbatim>\<open>%!verb(MISSING)\<close>; with too many it is the description for the operands the
  template takes, followed by \<^verbatim>\<open>%!(EXTRA type=value, ...)\<close> for the others. So
  the text \<^verbatim>\<open>(MISSING)\<close> stands in the description in the first case and the text
  \<^verbatim>\<open>%!(EXTRA\<close> in the second. The last two parts show both on makers of locales.go.
\<close>

theorem messageMaker_returns_bound_code:
  "Code (newMessageMaker unmodelled code format args) = code \<and>
   (\<forall>b \<in> set message_bindings. \<forall>a.
      Code (newMessageMaker unmodelled (fst b) (snd b) a) = fst b \<and>
      doPrintf (snd b) a = Some (Description (newMessageMaker unmodelled (fst b) (snd b) a)) \<and>
      (length a < template_arity (snd b) \<longrightarrow>
         Description (newMessageMaker unmodelled (fst b) (snd b) a) =
         Description (newMessageMaker unmodelled (fst b) (snd b)
           (a @ replicate (template_arity (snd b) - length a) missing_operand)) \<and>
         has_infix ''(MISSING)'' (Description (newMessageMaker unmodelled (fst b) (snd b) a))) \<and>
      (template_arity (snd b) < length a \<longrightarrow>
         Description (newMessageMaker unmodelled (fst b) (snd b) a) =
         Description (newMessageMaker unmodelled (fst b) (snd b) (take (template_arity (snd b)) a))
           @ ''%!(EXTRA '' @ extraArgs (drop (template_arity (snd b)) a) @ '')'' \<and>
         has_infix ''%!(EXTRA '' (Description (newMessageMaker unmodelled (fst b) (snd b) a)))) \<and>
   Description (ERROR_MESSAGE_X_MUST_BE_OF_TYPE_Y unmodelled [Operand ty pr]) =
     pr (CHR ''s'') @ '' must be of type %!s(MISSING)'' \<and>
   Description (ERROR_MESSAGE_X_IS_NOT_A_VALID_TYPE unmodelled
       [Operand ty pr, Operand ty' pr', NilOperand]) =
     pr (CHR ''s'') @ '' is not a valid type%!(EXTRA '' @ ty' @ ''='' @ pr' (CHR ''v'')
       @ '', <nil>)''"
proof (intro conjI ballI allI impI)
  show "Code (newMessageMaker unmodelled code format args) = code"
    by (simp add: newMessageMaker_def)
next
  fix b :: "string \<times> string" and a :: "operand list"
  assume b: "b \<in> set message_bindings"
  show "Code (newMessageMaker unmodelled (fst b) (snd b) a) = fst b"
    by (simp add: newMessageMaker_def)
  show "doPrintf (snd b) a = Some (Description (newMessageMaker unmodelled (fst b) (snd b) a))"
    by (rule Description_plain [OF bindings_plain_member [OF b]])
  show "Description (newMessageMaker unmodelled (fst b) (snd b) a) =
      Description (newMessageMaker unmodelled (fst b) (snd b)
        (a @ replicate (template_arity (snd b) - length a) missing_operand))"
    if "length a < template_arity (snd b)"
    by (rule Description_shortage [OF bindings_plain_member [OF b] that])
  show "has_infix ''(MISSING)'' (Description (newMessageMaker unmodelled (fst b) (snd b) a))"
    if "length a < template_arity (snd b)"
    by (rule Description_shortage_MISSING [OF bindings_plain_member [OF b] that])
  show "Description (newMessageMaker unmodelled (fst b) (snd b) a) =
      Description (newMessageMaker unmodelled (fst b) (snd b) (take (template_arity (snd b)) a))
        @ ''%!(EXTRA '' @ extraArgs (drop (template_arity (snd b)) a) @ '')''"
    if "template_arity (snd b) < length a"
    by (rule Description_surplus [OF bindings_plain_member [OF b] that])
  show "has_infix ''%!(EXTRA '' (Description (newMessageMaker unmodelled (fst b) (snd b) a))"
    if "template_arity (snd b) < length a"
    by (rule Description_surplus_EXTRA [OF bindings_plain_member [OF b] that])
next
  show "Description (ERROR_MESSAGE_X_MUST_BE_OF_TYPE_Y unmodelled [Operand ty pr]) =
      pr (CHR ''s'') @ '' must be of type %!s(MISSING)''"
    by (simp add: ERROR_MESSAGE_X_MUST_BE_OF_TYPE_Y_def newMessageMaker_def fmt_Sprintf_def
        complex_directive_def missingArg_def extra_def)
next
  show "Description (ERROR_MESSAGE_X_IS_NOT_A_VALID_TYPE unmodelled
        [Operand ty pr, Operand ty' pr', NilOperand]) =
      pr (CHR ''s'') @ '' is not a valid type%!(EXTRA '' @ ty' @ ''='' @ pr' (CHR ''v'')
        @ '', <nil>)''"
    by (simp add: ERROR_MESSAGE_X_IS_NOT_A_VALID_TYPE_def newMessageMaker_def fmt_Sprintf_def
        complex_directive_def extra_def)
qed

theorem messageMaker_returns_bound_code_witness:
  "(''X_MUST_BE_OF_TYPE_Y'', ''%s must be of type %s'') \<in> set message_bindings \<and>
   length [Operand ''string'' (\<lambda>verb. ''array'')] < template_arity ''%s must be of type %s'' \<and>
   Code (newMessageMaker (\<lambda>f a. []) ''X_MUST_BE_OF_TYPE_Y'' ''%s must be of type %s''
           [Operand ''string'' (\<lambda>verb. ''array'')]) = ''X_MUST_BE_OF_TYPE_Y'' \<and>
   Description (newMessageMaker (\<lambda>f a. []) ''X_MUST_BE_OF_TYPE_Y'' ''%s must be of type %s''
           [Operand ''string'' (\<lambda>verb. ''array'')]) =
     Description (newMessageMaker (\<lambda>f a. []) ''X_MUST_BE_OF_TYPE_Y'' ''%s must be of type %s''
           [Operand ''string'' (\<lambda>verb. ''array''), missing_operand]) \<and>
   Description (newMessageMaker (\<lambda>f a. []) ''X_MUST_BE_OF_TYPE_Y'' ''%s must be of type %s''
           [Operand ''string'' (\<lambda>verb. ''array''), missing_operand]) =
     ''array must be of type %!s(MISSING)'' \<and>
   template_arity ''%s must be of type %s''
     < length [Operand ''string'' (\<lambda>verb. ''a''), Operand ''string'' (\<lambda>verb. ''b''),
               Operand ''int'' (\<lambda>verb. ''7'')] \<and>
   Description (newMessageMaker (\<lambda>f a. []) ''X_MUST_BE_OF_TYPE_Y'' ''%s must be of type %s''
           [Operand ''string'' (\<lambda>verb. ''a''), Operand ''string'' (\<lambda>verb. ''b''),
            Operand ''int'' (\<lambda>verb. ''7'')]) =
     Description (newMessageMaker (\<lambda>f a. []) ''X_MUST_BE_OF_TYPE_Y'' ''%s must be of type %s''
           [Operand ''string'' (\<lambda>verb. ''a''), Operand ''string'' (\<lambda>verb. ''b'')])
       @ ''%!(EXTRA int=7)'' \<and>
   Description (newMessageMaker (\<lambda>f a. []) ''X_MUST_BE_OF_TYPE_Y'' ''%s must be of type %s''
           [Operand ''string'' (\<lambda>verb. ''a''), Operand ''string'' (\<lambda>verb. ''b'')]) =
     ''a must be of type b''"
proof -
  have m: "(''X_MUST_BE_OF_TYPE_Y'', ''%s must be of type %s'') \<in> set message_bindings"
    by (simp add: message_bindings_def)
  have n: "template_arity ''%s must be of type %s'' = Suc (Suc 0)"
    by simp
  note t = messageMaker_returns_bound_code
    [of "\<lambda>f a. []" "''X_MUST_BE_OF_TYPE_Y''" "''%s must be of type %s''"
        "[Operand ''string'' (\<lambda>verb. ''array'')]" "''string''" "\<lambda>verb. ''array''"
        "''string''" "\<lambda>verb. ''array''"]
  note row = t [THEN conjunct2, THEN conjunct1, THEN bspec, OF m, THEN spec]
  have c: "Code (newMessageMaker (\<lambda>f a. []) ''X_MUST_BE_OF_TYPE_Y'' ''%s must be of type %s''
        [Operand ''string'' (\<lambda>verb. ''array'')]) = ''X_MUST_BE_OF_TYPE_Y''"
    using row [of "[Operand ''string'' (\<lambda>verb. ''array'')]", THEN conjunct1] by simp
  have l1: "length [Operand ''string'' (\<lambda>verb. ''array'')]
      < template_arity ''%s must be of type %s''"
    by (simp only: n) simp
  have few: "Description (newMessageMaker (\<lambda>f a. []) ''X_MUST_BE_OF_TYPE_Y''
        ''%s must be of type %s'' [Operand ''string'' (\<lambda>verb. ''array'')]) =
      Description (newMessageMaker (\<lambda>f a. []) ''X_MUST_BE_OF_TYPE_Y'' ''%s must be of type %s''
        [Operand ''string'' (\<lambda>verb. ''array''), missing_operand])"
    using row [of "[Operand ''string'' (\<lambda>verb. ''array'')]",
        THEN conjunct2, THEN conjunct2, THEN conjunct1, rule_format] l1
    by (simp add: n)
  have few_text: "Description (newMessageMaker (\<lambda>f a. []) ''X_MUST_BE_OF_TYPE_Y''
        ''%s must be of type %s'' [Operand ''string'' (\<lambda>verb. ''array''), missing_operand]) =
      ''array must be of type %!s(MISSING)''"
    by (simp add: newMessageMaker_def fmt_Sprintf_def complex_directive_def extra_def
        missing_operand_def)
  have l2: "template_arity ''%s must be of type %s''
      < length [Operand ''string'' (\<lambda>verb. ''a''), Operand ''string'' (\<lambda>verb. ''b''),
                Operand ''int'' (\<lambda>verb. ''7'')]"
    by (simp only: n) simp
  have many: "Description (newMessageMaker (\<lambda>f a. []) ''X_MUST_BE_OF_TYPE_Y''
        ''%s must be of type %s''
        [Operand ''string'' (\<lambda>verb. ''a''), Operand ''string'' (\<lambda>verb. ''b''),
         Operand ''int'' (\<lambda>verb. ''7'')]) =
      Description (newMessageMaker (\<lambda>f a. []) ''X_MUST_BE_OF_TYPE_Y'' ''%s must be of type %s''
        [Operand ''string'' (\<lambda>verb. ''a''), Operand ''string'' (\<lambda>verb. ''b'')])
        @ ''%!(EXTRA int=7)''"
    using row [of "[Operand ''string'' (\<lambda>verb. ''a''), Operand ''string'' (\<lambda>verb. ''b''),
        Operand ''int'' (\<lambda>verb. ''7'')]",
        THEN conjunct2, THEN conjunct2, THEN conjunct2, rule_format] l2
    by (simp add: n)
  have many_text: "Description (newMessageMaker (\<lambda>f a. []) ''X_MUST_BE_OF_TYPE_Y''
        ''%s must be of type %s''
        [Operand ''string'' (\<lambda>verb. ''a''), Operand ''string'' (\<lambda>verb. ''b'')]) =
      ''a must be of type b''"
    by (simp add: newMessageMaker_def fmt_Sprintf_def complex_directive_def extra_def)
  show ?thesis
    by (intro conjI) (rule m l1 c few few_text l2 many many_text)+
qed

end
